theory Spec2Isabelle
  imports Main "HOL-Library.Word"
begin

section \<open>JavaScript values\<close>

text \<open>
  The handlers are written against \<^verbatim>\<open>any\<close>-typed data: the parsed JSON body of a request, the
  entities the table client returns, the fields of an SDK response. They are modelled by one
  datatype of JavaScript values. A number is a double in the source; the handlers only test a
  number for being zero (\<^verbatim>\<open>age || 0\<close>), so \<open>JNum\<close> carries an integer and \<open>JNum 0\<close> stands for
  both zeroes. An object is its list of own properties.
\<close>

datatype jsval =
    JUndefined
  | JNull
  | JBool bool
  | JNum int
  | JStr string
  | JArr "jsval list"
  | JObj "(string \<times> jsval) list"

text \<open>ToBoolean, as used by \<^verbatim>\<open>!x\<close> and \<^verbatim>\<open>x || y\<close>.\<close>

fun truthy :: "jsval \<Rightarrow> bool" where
  "truthy JUndefined = False"
| "truthy JNull = False"
| "truthy (JBool b) = b"
| "truthy (JNum n) = (n \<noteq> 0)"
| "truthy (JStr s) = (s \<noteq> [])"
| "truthy (JArr xs) = True"
| "truthy (JObj ps) = True"

text \<open>\<^verbatim>\<open>a || b\<close> on values.\<close>

definition js_or :: "jsval \<Rightarrow> jsval \<Rightarrow> jsval" where
  "js_or a b = (if truthy a then a else b)"

text \<open>
  The result of \<^verbatim>\<open>query.get(k)\<close> and \<^verbatim>\<open>headers.get(k)\<close> is \<^verbatim>\<open>string | null\<close>: an optional string.
  It is falsy when it is null and when it is the empty string.
\<close>

definition truthy_str :: "string option \<Rightarrow> bool" where
  "truthy_str v = (case v of None \<Rightarrow> False | Some s \<Rightarrow> s \<noteq> [])"

text \<open>\<^verbatim>\<open>v || d\<close> for an optional string \<open>v\<close> and a string literal \<open>d\<close>.\<close>

definition str_or :: "string option \<Rightarrow> string \<Rightarrow> string" where
  "str_or v d = (case v of None \<Rightarrow> d | Some s \<Rightarrow> if s = [] then d else s)"

text \<open>
  Reading one of the properties \<^verbatim>\<open>userId\<close>, \<^verbatim>\<open>department\<close>, \<^verbatim>\<open>name\<close>, \<^verbatim>\<open>email\<close>, \<^verbatim>\<open>age\<close>
  of a parsed JSON value that is neither null nor undefined: an object yields its own property,
  and a number, boolean, string or array has none of these five, so the read is undefined.
\<close>

fun get_prop :: "jsval \<Rightarrow> string \<Rightarrow> jsval" where
  "get_prop (JObj ps) k = (case map_of ps k of Some v \<Rightarrow> v | None \<Rightarrow> JUndefined)"
| "get_prop v k = JUndefined"

definition has_prop :: "jsval \<Rightarrow> string \<Rightarrow> bool" where
  "has_prop v k = (case v of JObj ps \<Rightarrow> k \<in> fst ` set ps | _ \<Rightarrow> False)"

text \<open>
  \<^verbatim>\<open>JSON.stringify(v)\<close>, kept as the JSON document it denotes rather than as its text: a
  property whose value is undefined is left out, an undefined array element becomes null.
\<close>

fun JSON_stringify :: "jsval \<Rightarrow> jsval"
  and stringify_elems :: "jsval list \<Rightarrow> jsval list"
  and stringify_props :: "(string \<times> jsval) list \<Rightarrow> (string \<times> jsval) list" where
  "JSON_stringify (JArr xs) = JArr (stringify_elems xs)"
| "JSON_stringify (JObj ps) = JObj (stringify_props ps)"
| "JSON_stringify v = v"
| "stringify_elems [] = []"
| "stringify_elems (x # xs) =
     (if x = JUndefined then JNull else JSON_stringify x) # stringify_elems xs"
| "stringify_props [] = []"
| "stringify_props ((k, v) # ps) =
     (if v = JUndefined then stringify_props ps else (k, JSON_stringify v) # stringify_props ps)"

text \<open>\<^verbatim>\<open>String.prototype.toUpperCase\<close> on the ASCII text of an HTTP method.\<close>

definition upper_char :: "char \<Rightarrow> char" where
  "upper_char c =
     (case map_of (zip ''abcdefghijklmnopqrstuvwxyz'' ''ABCDEFGHIJKLMNOPQRSTUVWXYZ'') c of
        Some u \<Rightarrow> u
      | None \<Rightarrow> c)"

definition toUpperCase :: "string \<Rightarrow> string" where
  "toUpperCase s = map upper_char s"

text \<open>\<^verbatim>\<open>Number.prototype.toString\<close> on a content length, a natural number.\<close>

fun toString :: "nat \<Rightarrow> string" where
  "toString n =
     (if n < 10 then [''0123456789'' ! n]
      else toString (n div 10) @ [''0123456789'' ! (n mod 10)])"

declare toString.simps [simp del]

section \<open>Errors, requests and responses\<close>

text \<open>
  A thrown value. The handlers read two properties of it: \<^verbatim>\<open>statusCode\<close>, which the storage
  SDK's errors carry and other errors do not, and \<^verbatim>\<open>message\<close>.
\<close>

record js_error =
  statusCode :: "int option"
  message :: string

type_synonym bytes = "8 word list"

text \<open>
  The part of the platform's \<^verbatim>\<open>HttpRequest\<close> the handlers read. \<open>query\<close> and \<open>headers\<close> are
  the entries behind \<^verbatim>\<open>query.get\<close> and \<^verbatim>\<open>headers.get\<close> (header names in lower case); \<open>json\<close>
  and \<open>arrayBuffer\<close> are what the two body readers produce: a rejection or the body.
  \<open>http_method\<close> is the property \<^verbatim>\<open>method\<close>.
\<close>

record HttpRequest =
  http_method :: string
  url :: string
  query :: "(string \<times> string) list"
  headers :: "(string \<times> string) list"
  json :: "js_error + jsval"
  arrayBuffer :: "js_error + bytes"

definition query_get :: "HttpRequest \<Rightarrow> string \<Rightarrow> string option" where
  "query_get request k = map_of (query request) k"

definition headers_get :: "HttpRequest \<Rightarrow> string \<Rightarrow> string option" where
  "headers_get request k = map_of (headers request) k"

text \<open>
  A response body is either \<^verbatim>\<open>JSON.stringify\<close> of a value or a buffer of bytes. A response
  written without \<^verbatim>\<open>headers\<close> has the empty list.
\<close>

datatype response_body = Json jsval | Bytes bytes

record HttpResponseInit =
  status :: int
  resp_headers :: "(string \<times> string) list"
  body :: response_body

definition json_response :: "int \<Rightarrow> jsval \<Rightarrow> HttpResponseInit" where
  "json_response st v = \<lparr>status = st, resp_headers = [], body = Json (JSON_stringify v)\<rparr>"

definition error_response :: "int \<Rightarrow> string \<Rightarrow> HttpResponseInit" where
  "error_response st text = json_response st (JObj [(''error'', JStr text)])"

section \<open>The storage service and the invocation\<close>

text \<open>The user record the table handlers build. Its fields hold whatever the body held.\<close>

record UserEntity =
  partitionKey :: jsval
  rowKey :: jsval
  name :: jsval
  email :: jsval
  age :: jsval

definition UserEntity_obj :: "UserEntity \<Rightarrow> jsval" where
  "UserEntity_obj e =
     JObj [(''partitionKey'', partitionKey e), (''rowKey'', rowKey e), (''name'', name e),
           (''email'', email e), (''age'', age e)]"

datatype update_mode = Merge | Replace

text \<open>The calls the handlers make on the storage clients, with their arguments.\<close>

datatype store_call =
    CreateIfNotExists
  | Download string
  | GetProperties string
  | ListBlobsFlat
  | Upload string bytes nat string "(string \<times> string) list"
  | DeleteBlob string
  | CreateTable
  | GetEntity string string
  | ListEntities string
  | CreateEntity UserEntity
  | UpsertEntity UserEntity update_mode
  | DeleteEntity string string

datatype log_entry =
    Info string "js_error option"
  | Err string js_error

text \<open>
  What one invocation can touch: the state of the storage service (of any type \<open>'s\<close>), the
  storage calls attempted so far, the lines written through the invocation context, and the
  time \<^verbatim>\<open>new Date().toISOString()\<close> reads.
\<close>

record 's world =
  store :: 's
  calls :: "store_call list"
  logs :: "log_entry list"
  clock :: string

definition log :: "log_entry \<Rightarrow> 's world \<Rightarrow> 's world" where
  "log l w = w\<lparr>logs := logs w @ [l]\<rparr>"

text \<open>Awaiting a storage call: the call is recorded and the service moves to its next state.\<close>

definition call :: "store_call \<Rightarrow> ('s \<Rightarrow> 'a \<times> 's) \<Rightarrow> 's world \<Rightarrow> 'a \<times> 's world" where
  "call c f w = (case f (store w) of (r, s') \<Rightarrow> (r, w\<lparr>store := s', calls := calls w @ [c]\<rparr>))"

text \<open>
  The \<^verbatim>\<open>catch\<close> block the lookups and deletes share: an error whose status code is 404 becomes
  a 404 response with the given text, any other error is thrown again.
\<close>

definition catch_not_found ::
  "string \<Rightarrow> (js_error + HttpResponseInit) \<times> 's world \<Rightarrow> (js_error + HttpResponseInit) \<times> 's world" where
  "catch_not_found text rw =
     (case rw of
        (Inl error, w) \<Rightarrow>
          if statusCode error = Some 404 then (Inr (error_response 404 text), w)
          else (Inl error, w)
      | (Inr response, w) \<Rightarrow> (Inr response, w))"

text \<open>
  The \<^verbatim>\<open>catch\<close> block around the dispatch of both endpoints: the error is logged and answered
  with 500 and its message.
\<close>

definition internal_server_error :: "js_error \<Rightarrow> HttpResponseInit" where
  "internal_server_error error =
     json_response 500
       (JObj [(''error'', JStr ''Internal server error''), (''details'', JStr (message error))])"

definition catch_all ::
  "string \<Rightarrow> (js_error + HttpResponseInit) \<times> 's world \<Rightarrow> (js_error + HttpResponseInit) \<times> 's world" where
  "catch_all text rw =
     (case rw of
        (Inl error, w) \<Rightarrow> (Inr (internal_server_error error), log (Err text error) w)
      | (Inr response, w) \<Rightarrow> (Inr response, w))"

section \<open>The blob endpoint\<close>

text \<open>
  The storage SDK is not part of the repository: the blob clients are a parameter, one
  function per method the handlers call, each taking the service's state to an outcome (the
  thrown error on the left) and the next state. \<open>BlobServiceClient_new\<close> stands for
  \<^verbatim>\<open>new BlobServiceClient(connectionString)\<close> followed by \<^verbatim>\<open>getContainerClient(containerName)\<close>:
  it makes no request, and yields the error it throws, if any. \<^verbatim>\<open>getBlockBlobClient\<close> only
  builds a client object for a name that is not empty, and is taken not to throw. The body
  stream of a download is given by what reading it to its end produces, an error or the
  chunks; \<open>blob_url\<close> is the \<^verbatim>\<open>url\<close> of the block blob client of a name.
\<close>

record DownloadResponse =
  readableStreamBody :: "(js_error + bytes list) option"

record BlobProperties =
  contentType :: "string option"
  contentLength :: "nat option"

record BlobItem =
  blob_name :: string
  blob_contentLength :: jsval
  blob_lastModified :: jsval
  blob_contentType :: jsval

record BlobUploadResponse =
  requestId :: jsval
  etag :: jsval
  lastModified :: jsval

record BlobDeleteResponse =
  delete_requestId :: jsval

record 's BlobSdk =
  BlobServiceClient_new :: "string \<Rightarrow> string \<Rightarrow> js_error option"
  createIfNotExists :: "'s \<Rightarrow> (js_error + unit) \<times> 's"
  download :: "string \<Rightarrow> 's \<Rightarrow> (js_error + DownloadResponse) \<times> 's"
  getProperties :: "string \<Rightarrow> 's \<Rightarrow> (js_error + BlobProperties) \<times> 's"
  listBlobsFlat :: "'s \<Rightarrow> (js_error + BlobItem list) \<times> 's"
  upload ::
    "string \<Rightarrow> bytes \<Rightarrow> nat \<Rightarrow> string \<Rightarrow> (string \<times> string) list \<Rightarrow> 's
       \<Rightarrow> (js_error + BlobUploadResponse) \<times> 's"
  deleteBlob :: "string \<Rightarrow> 's \<Rightarrow> (js_error + BlobDeleteResponse) \<times> 's"
  blob_url :: "string \<Rightarrow> string"

definition containerName :: string where
  "containerName = ''documents''"

text \<open>The \<^verbatim>\<open>try\<close> block of the download branch of \<^verbatim>\<open>handleGetRequest\<close>.\<close>

definition blob_download_try ::
  "'s BlobSdk \<Rightarrow> string \<Rightarrow> 's world \<Rightarrow> (js_error + HttpResponseInit) \<times> 's world" where
  "blob_download_try containerClient blobName w =
     (case call (Download blobName) (download containerClient blobName) w of
        (Inl error, w1) \<Rightarrow> (Inl error, w1)
      | (Inr downloadResponse, w1) \<Rightarrow>
          (case readableStreamBody downloadResponse of
             None \<Rightarrow> (Inr (error_response 404 ''Blob not found or empty''), w1)
           | Some (Inl error) \<Rightarrow> (Inl error, w1)
           | Some (Inr chunks) \<Rightarrow>
               (case call (GetProperties blobName) (getProperties containerClient blobName) w1 of
                  (Inl error, w2) \<Rightarrow> (Inl error, w2)
                | (Inr properties, w2) \<Rightarrow>
                    (Inr \<lparr>status = 200,
                          resp_headers =
                            [(''Content-Type'',
                              str_or (contentType properties) ''application/octet-stream''),
                             (''Content-Length'',
                              str_or (map_option toString (contentLength properties)) ''0'')],
                          body = Bytes (concat chunks)\<rparr>,
                     w2))))"

definition blob_item_obj :: "BlobItem \<Rightarrow> jsval" where
  "blob_item_obj blob =
     JObj [(''name'', JStr (blob_name blob)), (''size'', blob_contentLength blob),
           (''lastModified'', blob_lastModified blob), (''contentType'', blob_contentType blob)]"

definition blob_handleGetRequest ::
  "HttpRequest \<Rightarrow> 's BlobSdk \<Rightarrow> 's world \<Rightarrow> (js_error + HttpResponseInit) \<times> 's world" where
  "blob_handleGetRequest request containerClient w =
     (let blobName = query_get request ''blobName'' in
      if truthy_str blobName then
        catch_not_found ''Blob not found''
          (blob_download_try containerClient (str_or blobName []) w)
      else
        (case call ListBlobsFlat (listBlobsFlat containerClient) w of
           (Inl error, w1) \<Rightarrow> (Inl error, w1)
         | (Inr listed, w1) \<Rightarrow>
             (let blobs = map blob_item_obj listed in
              (Inr (json_response 200
                      (JObj [(''blobs'', JArr blobs), (''count'', JNum (int (length blobs)))])),
               w1))))"

definition blob_handlePostRequest ::
  "HttpRequest \<Rightarrow> 's BlobSdk \<Rightarrow> 's world \<Rightarrow> (js_error + HttpResponseInit) \<times> 's world" where
  "blob_handlePostRequest request containerClient w =
     (let blobName = query_get request ''blobName'';
          contentType = str_or (headers_get request ''content-type'') ''application/octet-stream''
      in
      if \<not> truthy_str blobName then
        (Inr (error_response 400 ''Missing required parameter: blobName''), w)
      else
        (case arrayBuffer request of
           Inl error \<Rightarrow> (Inl error, w)
         | Inr buffer \<Rightarrow>
             (let blobName = str_or blobName [];
                  metadata = [(''uploadedAt'', clock w), (''uploadedBy'', ''azure-function'')]
              in
              case call (Upload blobName buffer (length buffer) contentType metadata)
                     (upload containerClient blobName buffer (length buffer) contentType metadata) w of
                (Inl error, w1) \<Rightarrow> (Inl error, w1)
              | (Inr uploadResponse, w1) \<Rightarrow>
                  (Inr (json_response 201
                          (JObj [(''message'', JStr ''Blob uploaded successfully''),
                                 (''blobName'', JStr blobName),
                                 (''requestId'', requestId uploadResponse),
                                 (''etag'', etag uploadResponse),
                                 (''lastModified'', lastModified uploadResponse),
                                 (''url'', JStr (blob_url containerClient blobName))])),
                   w1))))"

definition blob_handleDeleteRequest ::
  "HttpRequest \<Rightarrow> 's BlobSdk \<Rightarrow> 's world \<Rightarrow> (js_error + HttpResponseInit) \<times> 's world" where
  "blob_handleDeleteRequest request containerClient w =
     (let blobName = query_get request ''blobName'' in
      if \<not> truthy_str blobName then
        (Inr (error_response 400 ''Missing required parameter: blobName''), w)
      else
        catch_not_found ''Blob not found''
          (let blobName = str_or blobName [] in
           case call (DeleteBlob blobName) (deleteBlob containerClient blobName) w of
             (Inl error, w1) \<Rightarrow> (Inl error, w1)
           | (Inr deleteResponse, w1) \<Rightarrow>
               (Inr (json_response 200
                       (JObj [(''message'', JStr ''Blob deleted successfully''),
                              (''blobName'', JStr blobName),
                              (''requestId'', delete_requestId deleteResponse)])),
                w1)))"

definition not_configured :: HttpResponseInit where
  "not_configured = error_response 500 ''Azure Storage connection string not configured''"

text \<open>
  The guard step both endpoints share: the creation of the backing store is attempted, and an
  error it throws is logged and dropped.
\<close>

definition ensure_exists ::
  "store_call \<Rightarrow> string \<Rightarrow> ('s \<Rightarrow> (js_error + unit) \<times> 's) \<Rightarrow> 's world \<Rightarrow> 's world" where
  "ensure_exists c text create w =
     (case call c create w of
        (Inl error, w1) \<Rightarrow> log (Info text (Some error)) w1
      | (Inr u, w1) \<Rightarrow> w1)"

text \<open>
  \<^verbatim>\<open>blobStorageApi\<close>. The connection string is read from the environment when the module is
  loaded, so it is a parameter. A result on the left is a rejected promise: the error thrown
  by the construction of the client, which no \<^verbatim>\<open>try\<close> encloses. \<open>blob_entered\<close> is the world
  after the first log line, \<open>blob_guarded\<close> the world in which the dispatched handler runs.
\<close>

definition blob_entered :: "HttpRequest \<Rightarrow> 's world \<Rightarrow> 's world" where
  "blob_entered request w0 =
     log (Info (''Blob Storage API processed request for url '' @ [CHR 0x22]
                  @ url request @ [CHR 0x22]) None) w0"

definition blob_guarded :: "'s BlobSdk \<Rightarrow> HttpRequest \<Rightarrow> 's world \<Rightarrow> 's world" where
  "blob_guarded sdk request w0 =
     ensure_exists CreateIfNotExists ''Container creation result:'' (createIfNotExists sdk)
       (blob_entered request w0)"

definition blobStorageApi ::
  "string option \<Rightarrow> 's BlobSdk \<Rightarrow> HttpRequest \<Rightarrow> 's world
     \<Rightarrow> (js_error + HttpResponseInit) \<times> 's world" where
  "blobStorageApi connectionString sdk request w0 =
     (if \<not> truthy_str connectionString then (Inr not_configured, blob_entered request w0)
      else
        (case BlobServiceClient_new sdk (str_or connectionString []) containerName of
           Some error \<Rightarrow> (Inl error, blob_entered request w0)
         | None \<Rightarrow>
             (let w1 = blob_guarded sdk request w0;
                  verb = toUpperCase (http_method request)
              in
              catch_all ''Error in blob storage operation:''
                (if verb = ''GET'' then blob_handleGetRequest request sdk w1
                 else if verb = ''POST'' then blob_handlePostRequest request sdk w1
                 else if verb = ''DELETE'' then blob_handleDeleteRequest request sdk w1
                 else (Inr (error_response 405 ''Method not allowed''), w1)))))"

section \<open>The table endpoint\<close>

text \<open>
  The table client, a parameter like the blob clients. \<open>TableClient_new\<close> stands for
  \<^verbatim>\<open>new TableClient(connectionString, "users")\<close>; \<open>listEntities\<close> takes the department of the
  filter \<^verbatim>\<open>PartitionKey eq department\<close> and yields what iterating the listing to its end
  produces.
\<close>

record 's TableSdk =
  TableClient_new :: "string \<Rightarrow> string \<Rightarrow> js_error option"
  createTable :: "'s \<Rightarrow> (js_error + unit) \<times> 's"
  getEntity :: "string \<Rightarrow> string \<Rightarrow> 's \<Rightarrow> (js_error + jsval) \<times> 's"
  listEntities :: "string \<Rightarrow> 's \<Rightarrow> (js_error + jsval list) \<times> 's"
  createEntity :: "UserEntity \<Rightarrow> 's \<Rightarrow> (js_error + unit) \<times> 's"
  upsertEntity :: "UserEntity \<Rightarrow> update_mode \<Rightarrow> 's \<Rightarrow> (js_error + unit) \<times> 's"
  deleteEntity :: "string \<Rightarrow> string \<Rightarrow> 's \<Rightarrow> (js_error + unit) \<times> 's"

text \<open>
  Destructuring \<^verbatim>\<open>const { userId, department = 'default', name, email, age } = body\<close> throws a
  TypeError when the body is null; the words of its message are the engine's. Otherwise each
  name is read from the body, and \<^verbatim>\<open>department\<close> takes its default when the read is undefined.
\<close>

definition destructure_error :: js_error where
  "destructure_error =
     \<lparr>statusCode = None,
      message = ''Cannot destructure property 'userId' of 'body' as it is null.''\<rparr>"

definition destructurable :: "jsval \<Rightarrow> bool" where
  "destructurable v = (v \<noteq> JNull \<and> v \<noteq> JUndefined)"

definition get_department :: "jsval \<Rightarrow> jsval" where
  "get_department v =
     (let department = get_prop v ''department''
      in if department = JUndefined then JStr ''default'' else department)"

text \<open>The object literal both \<^verbatim>\<open>handlePostRequest\<close> and \<^verbatim>\<open>handlePutRequest\<close> build.\<close>

definition make_userEntity :: "jsval \<Rightarrow> UserEntity" where
  "make_userEntity v =
     \<lparr>partitionKey = get_department v,
      rowKey = get_prop v ''userId'',
      name = get_prop v ''name'',
      email = get_prop v ''email'',
      age = js_or (get_prop v ''age'') (JNum 0)\<rparr>"

definition table_handleGetRequest ::
  "HttpRequest \<Rightarrow> 's TableSdk \<Rightarrow> 's world \<Rightarrow> (js_error + HttpResponseInit) \<times> 's world" where
  "table_handleGetRequest request tableClient w =
     (let userId = query_get request ''userId'';
          department = str_or (query_get request ''department'') ''default''
      in
      if truthy_str userId then
        catch_not_found ''User not found''
          (let userId = str_or userId [] in
           case call (GetEntity department userId) (getEntity tableClient department userId) w of
             (Inl error, w1) \<Rightarrow> (Inl error, w1)
           | (Inr entity, w1) \<Rightarrow> (Inr (json_response 200 entity), w1))
      else
        (case call (ListEntities department) (listEntities tableClient department) w of
           (Inl error, w1) \<Rightarrow> (Inl error, w1)
         | (Inr users, w1) \<Rightarrow>
             (Inr (json_response 200
                     (JObj [(''users'', JArr users), (''count'', JNum (int (length users)))])),
              w1)))"

definition table_handlePostRequest ::
  "HttpRequest \<Rightarrow> 's TableSdk \<Rightarrow> 's world \<Rightarrow> (js_error + HttpResponseInit) \<times> 's world" where
  "table_handlePostRequest request tableClient w =
     (case json request of
        Inl error \<Rightarrow> (Inl error, w)
      | Inr parsed \<Rightarrow>
          if \<not> destructurable parsed then (Inl destructure_error, w)
          else if \<not> truthy (get_prop parsed ''userId'') \<or> \<not> truthy (get_prop parsed ''name'')
                  \<or> \<not> truthy (get_prop parsed ''email'') then
            (Inr (error_response 400 ''Missing required fields: userId, name, email''), w)
          else
            (let userEntity = make_userEntity parsed in
             case call (CreateEntity userEntity) (createEntity tableClient userEntity) w of
               (Inl error, w1) \<Rightarrow> (Inl error, w1)
             | (Inr u, w1) \<Rightarrow>
                 (Inr (json_response 201
                         (JObj [(''message'', JStr ''User created successfully''),
                                (''user'', UserEntity_obj userEntity)])),
                  w1)))"

definition table_handlePutRequest ::
  "HttpRequest \<Rightarrow> 's TableSdk \<Rightarrow> 's world \<Rightarrow> (js_error + HttpResponseInit) \<times> 's world" where
  "table_handlePutRequest request tableClient w =
     (case json request of
        Inl error \<Rightarrow> (Inl error, w)
      | Inr parsed \<Rightarrow>
          if \<not> destructurable parsed then (Inl destructure_error, w)
          else if \<not> truthy (get_prop parsed ''userId'') then
            (Inr (error_response 400 ''Missing required field: userId''), w)
          else
            (let userEntity = make_userEntity parsed in
             case call (UpsertEntity userEntity Replace)
                    (upsertEntity tableClient userEntity Replace) w of
               (Inl error, w1) \<Rightarrow> (Inl error, w1)
             | (Inr u, w1) \<Rightarrow>
                 (Inr (json_response 200
                         (JObj [(''message'', JStr ''User updated successfully''),
                                (''user'', UserEntity_obj userEntity)])),
                  w1)))"

definition table_handleDeleteRequest ::
  "HttpRequest \<Rightarrow> 's TableSdk \<Rightarrow> 's world \<Rightarrow> (js_error + HttpResponseInit) \<times> 's world" where
  "table_handleDeleteRequest request tableClient w =
     (let userId = query_get request ''userId'';
          department = str_or (query_get request ''department'') ''default''
      in
      if \<not> truthy_str userId then
        (Inr (error_response 400 ''Missing required parameter: userId''), w)
      else
        catch_not_found ''User not found''
          (let userId = str_or userId [] in
           case call (DeleteEntity department userId)
                  (deleteEntity tableClient department userId) w of
             (Inl error, w1) \<Rightarrow> (Inl error, w1)
           | (Inr u, w1) \<Rightarrow>
               (Inr (json_response 200 (JObj [(''message'', JStr ''User deleted successfully'')])),
                w1)))"

text \<open>
  \<^verbatim>\<open>tableStorageApi\<close>, with the connection string as a parameter; \<open>table_entered\<close> and
  \<open>table_guarded\<close> are as for the blob endpoint.
\<close>

definition table_entered :: "HttpRequest \<Rightarrow> 's world \<Rightarrow> 's world" where
  "table_entered request w0 =
     log (Info (''Table Storage API processed request for url '' @ [CHR 0x22]
                  @ url request @ [CHR 0x22]) None) w0"

definition table_guarded :: "'s TableSdk \<Rightarrow> HttpRequest \<Rightarrow> 's world \<Rightarrow> 's world" where
  "table_guarded sdk request w0 =
     ensure_exists CreateTable ''Table creation result:'' (createTable sdk)
       (table_entered request w0)"

definition tableStorageApi ::
  "string option \<Rightarrow> 's TableSdk \<Rightarrow> HttpRequest \<Rightarrow> 's world
     \<Rightarrow> (js_error + HttpResponseInit) \<times> 's world" where
  "tableStorageApi connectionString sdk request w0 =
     (if \<not> truthy_str connectionString then (Inr not_configured, table_entered request w0)
      else
        (case TableClient_new sdk (str_or connectionString []) ''users'' of
           Some error \<Rightarrow> (Inl error, table_entered request w0)
         | None \<Rightarrow>
             (let w1 = table_guarded sdk request w0;
                  verb = toUpperCase (http_method request)
              in
              catch_all ''Error in table storage operation:''
                (if verb = ''GET'' then table_handleGetRequest request sdk w1
                 else if verb = ''POST'' then table_handlePostRequest request sdk w1
                 else if verb = ''PUT'' then table_handlePutRequest request sdk w1
                 else if verb = ''DELETE'' then table_handleDeleteRequest request sdk w1
                 else (Inr (error_response 405 ''Method not allowed''), w1)))))"

section \<open>A reference table service\<close>

text \<open>
  Modelled from the spec: the table service behind the SDK, which is outside the repository.
  Of it the specification says that the compound key (partition, row) is unique within the
  table, that creating a duplicate key fails, that an upsert replaces the record wholesale
  (not a merge), that lookups and deletes of an absent record fail with the not-found status,
  and that creating the table fails once it exists. A record is stored as the JSON document
  of the entity, so an attribute that is undefined is not stored.
\<close>

record table_service =
  table_exists :: bool
  rows :: "((jsval \<times> jsval) \<times> jsval) list"

definition not_found_error :: js_error where
  "not_found_error = \<lparr>statusCode = Some 404, message = ''The specified resource does not exist.''\<rparr>"

definition conflict_error :: "string \<Rightarrow> js_error" where
  "conflict_error text = \<lparr>statusCode = Some 409, message = text\<rparr>"

definition remove_row :: "jsval \<times> jsval \<Rightarrow> ((jsval \<times> jsval) \<times> jsval) list \<Rightarrow> ((jsval \<times> jsval) \<times> jsval) list" where
  "remove_row k rs = filter (\<lambda>r. fst r \<noteq> k) rs"

definition merge_obj :: "jsval \<Rightarrow> jsval \<Rightarrow> jsval" where
  "merge_obj old new =
     (case (old, new) of
        (JObj ops, JObj nps) \<Rightarrow> JObj (nps @ filter (\<lambda>p. fst p \<notin> fst ` set nps) ops)
      | _ \<Rightarrow> new)"

definition entity_key :: "UserEntity \<Rightarrow> jsval \<times> jsval" where
  "entity_key e = (partitionKey e, rowKey e)"

definition ref_createTable :: "table_service \<Rightarrow> (js_error + unit) \<times> table_service" where
  "ref_createTable s =
     (if table_exists s then (Inl (conflict_error ''The table specified already exists.''), s)
      else (Inr (), s\<lparr>table_exists := True\<rparr>))"

definition ref_getEntity :: "string \<Rightarrow> string \<Rightarrow> table_service \<Rightarrow> (js_error + jsval) \<times> table_service" where
  "ref_getEntity p r s =
     (case map_of (rows s) (JStr p, JStr r) of
        None \<Rightarrow> (Inl not_found_error, s)
      | Some v \<Rightarrow> (Inr v, s))"

definition ref_listEntities :: "string \<Rightarrow> table_service \<Rightarrow> (js_error + jsval list) \<times> table_service" where
  "ref_listEntities p s = (Inr (map snd (filter (\<lambda>r. fst (fst r) = JStr p) (rows s))), s)"

definition ref_createEntity :: "UserEntity \<Rightarrow> table_service \<Rightarrow> (js_error + unit) \<times> table_service" where
  "ref_createEntity e s =
     (case map_of (rows s) (entity_key e) of
        Some v \<Rightarrow> (Inl (conflict_error ''The specified entity already exists.''), s)
      | None \<Rightarrow>
          (Inr (), s\<lparr>rows := (entity_key e, JSON_stringify (UserEntity_obj e)) # rows s\<rparr>))"

definition ref_upsertEntity ::
  "UserEntity \<Rightarrow> update_mode \<Rightarrow> table_service \<Rightarrow> (js_error + unit) \<times> table_service" where
  "ref_upsertEntity e mode s =
     (let new = JSON_stringify (UserEntity_obj e);
          stored = (case (mode, map_of (rows s) (entity_key e)) of
                      (Merge, Some old) \<Rightarrow> merge_obj old new
                    | _ \<Rightarrow> new)
      in (Inr (), s\<lparr>rows := (entity_key e, stored) # remove_row (entity_key e) (rows s)\<rparr>))"

definition ref_deleteEntity :: "string \<Rightarrow> string \<Rightarrow> table_service \<Rightarrow> (js_error + unit) \<times> table_service" where
  "ref_deleteEntity p r s =
     (case map_of (rows s) (JStr p, JStr r) of
        None \<Rightarrow> (Inl not_found_error, s)
      | Some v \<Rightarrow> (Inr (), s\<lparr>rows := remove_row (JStr p, JStr r) (rows s)\<rparr>))"

definition ref_TableSdk :: "table_service TableSdk" where
  "ref_TableSdk =
     \<lparr>TableClient_new = (\<lambda>cs t. None),
      createTable = ref_createTable,
      getEntity = ref_getEntity,
      listEntities = ref_listEntities,
      createEntity = ref_createEntity,
      upsertEntity = ref_upsertEntity,
      deleteEntity = ref_deleteEntity\<rparr>"

section \<open>A reference blob service\<close>

text \<open>
  Modelled from the spec: the blob service behind the SDK, which is outside the repository.
  Of it the specification says that a stored blob is a byte sequence addressed by a name, with
  a content type; that an upload of an existing name replaces the content; that a download or
  a delete of a missing name fails with the not-found status; and that creating the
  container when it exists is not an error of this call. The values the server assigns
  (request id, etag, last-modified) are left undefined.
\<close>

record stored_blob =
  content :: bytes
  content_type :: string

record blob_service =
  container_exists :: bool
  objects :: "(string \<times> stored_blob) list"

definition ref_createIfNotExists :: "blob_service \<Rightarrow> (js_error + unit) \<times> blob_service" where
  "ref_createIfNotExists s = (Inr (), s\<lparr>container_exists := True\<rparr>)"

definition ref_download ::
  "string \<Rightarrow> blob_service \<Rightarrow> (js_error + DownloadResponse) \<times> blob_service" where
  "ref_download b s =
     (case map_of (objects s) b of
        None \<Rightarrow> (Inl not_found_error, s)
      | Some x \<Rightarrow> (Inr \<lparr>readableStreamBody = Some (Inr [content x])\<rparr>, s))"

definition ref_getProperties ::
  "string \<Rightarrow> blob_service \<Rightarrow> (js_error + BlobProperties) \<times> blob_service" where
  "ref_getProperties b s =
     (case map_of (objects s) b of
        None \<Rightarrow> (Inl not_found_error, s)
      | Some x \<Rightarrow>
          (Inr \<lparr>contentType = Some (content_type x), contentLength = Some (length (content x))\<rparr>,
           s))"

definition ref_listBlobsFlat :: "blob_service \<Rightarrow> (js_error + BlobItem list) \<times> blob_service" where
  "ref_listBlobsFlat s =
     (Inr (map (\<lambda>p. \<lparr>blob_name = fst p,
                       blob_contentLength = JNum (int (length (content (snd p)))),
                       blob_lastModified = JUndefined,
                       blob_contentType = JStr (content_type (snd p))\<rparr>) (objects s)),
      s)"

definition ref_upload ::
  "string \<Rightarrow> bytes \<Rightarrow> nat \<Rightarrow> string \<Rightarrow> (string \<times> string) list \<Rightarrow> blob_service
     \<Rightarrow> (js_error + BlobUploadResponse) \<times> blob_service" where
  "ref_upload b buffer len ctype metadata s =
     (Inr \<lparr>requestId = JUndefined, etag = JUndefined, lastModified = JUndefined\<rparr>,
      s\<lparr>objects := (b, \<lparr>content = take len buffer, content_type = ctype\<rparr>)
                      # filter (\<lambda>p. fst p \<noteq> b) (objects s)\<rparr>)"

definition ref_deleteBlob ::
  "string \<Rightarrow> blob_service \<Rightarrow> (js_error + BlobDeleteResponse) \<times> blob_service" where
  "ref_deleteBlob b s =
     (case map_of (objects s) b of
        None \<Rightarrow> (Inl not_found_error, s)
      | Some x \<Rightarrow>
          (Inr \<lparr>delete_requestId = JUndefined\<rparr>,
           s\<lparr>objects := filter (\<lambda>p. fst p \<noteq> b) (objects s)\<rparr>))"

definition ref_BlobSdk :: "blob_service BlobSdk" where
  "ref_BlobSdk =
     \<lparr>BlobServiceClient_new = (\<lambda>cs c. None),
      createIfNotExists = ref_createIfNotExists,
      download = ref_download,
      getProperties = ref_getProperties,
      listBlobsFlat = ref_listBlobsFlat,
      upload = ref_upload,
      deleteBlob = ref_deleteBlob,
      blob_url = (\<lambda>b. ''https://account.blob.core.windows.net/documents/'' @ b)\<rparr>"

text \<open>The world an invocation starts in: nothing called, nothing logged.\<close>

definition fresh :: "'s \<Rightarrow> 's world" where
  "fresh s = \<lparr>store = s, calls = [], logs = [], clock = ''2026-01-01T00:00:00.000Z''\<rparr>"

section \<open>Vocabulary of the statements\<close>

text \<open>
  The credential is configured and the client is constructed without an error: the conditions
  under which an endpoint reaches its guard step and dispatches.
\<close>

definition blob_ready :: "string option \<Rightarrow> 's BlobSdk \<Rightarrow> bool" where
  "blob_ready connectionString sdk =
     (truthy_str connectionString
      \<and> BlobServiceClient_new sdk (str_or connectionString []) containerName = None)"

definition table_ready :: "string option \<Rightarrow> 's TableSdk \<Rightarrow> bool" where
  "table_ready connectionString sdk =
     (truthy_str connectionString
      \<and> TableClient_new sdk (str_or connectionString []) ''users'' = None)"

definition is_method :: "HttpRequest \<Rightarrow> string \<Rightarrow> bool" where
  "is_method request m = (toUpperCase (http_method request) = m)"

text \<open>A response body that is a JSON object with an \<^verbatim>\<open>error\<close> or a \<^verbatim>\<open>message\<close> field.\<close>

definition error_or_message :: "HttpResponseInit \<Rightarrow> bool" where
  "error_or_message response =
     (case body response of
        Json v \<Rightarrow> has_prop v ''error'' \<or> has_prop v ''message''
      | Bytes b \<Rightarrow> False)"

text \<open>Concrete inputs: a request with a readable body, and start states of the two services.\<close>

definition sample_request :: "string \<Rightarrow> (string \<times> string) list \<Rightarrow> jsval \<Rightarrow> HttpRequest" where
  "sample_request m q v =
     \<lparr>http_method = m, url = ''http://localhost:7071/api'', query = q, headers = [],
      json = Inr v, arrayBuffer = Inr [104, 105]\<rparr>"

definition sample_credential :: "string option" where
  "sample_credential = Some ''UseDevelopmentStorage=true''"

definition empty_table :: "table_service world" where
  "empty_table = fresh \<lparr>table_exists = True, rows = []\<rparr>"

definition empty_container :: "blob_service world" where
  "empty_container = fresh \<lparr>container_exists = True, objects = []\<rparr>"

definition one_blob_container :: "blob_service world" where
  "one_blob_container =
     fresh \<lparr>container_exists = True,
            objects = [(''a.txt'', \<lparr>content = [], content_type = ''text/plain''\<rparr>)]\<rparr>"

text \<open>A blob client whose download succeeds with a response that carries no body stream.\<close>

definition no_stream_sdk :: "blob_service BlobSdk" where
  "no_stream_sdk =
     ref_BlobSdk\<lparr>download := (\<lambda>b s. (Inr \<lparr>readableStreamBody = None\<rparr>, s))\<rparr>"

text \<open>A table client whose delete fails with a status other than not-found.\<close>

definition unavailable_error :: js_error where
  "unavailable_error = \<lparr>statusCode = Some 503, message = ''The server is busy.''\<rparr>"

definition unavailable_sdk :: "table_service TableSdk" where
  "unavailable_sdk = ref_TableSdk\<lparr>deleteEntity := (\<lambda>p r s. (Inl unavailable_error, s))\<rparr>"

text \<open>The body of the scenario of the specification, and a table that holds its record.\<close>

definition u1_body :: jsval where
  "u1_body = JObj [(''userId'', JStr ''u1''), (''name'', JStr ''A''), (''email'', JStr ''a@x.com'')]"

definition u1_record :: jsval where
  "u1_record =
     JObj [(''partitionKey'', JStr ''default''), (''rowKey'', JStr ''u1''), (''name'', JStr ''A''),
           (''email'', JStr ''a@x.com''), (''age'', JNum 0)]"

definition one_user_table :: "table_service world" where
  "one_user_table =
     fresh \<lparr>table_exists = True, rows = [((JStr ''default'', JStr ''u1''), u1_record)]\<rparr>"

text \<open>
  A storage account in which the table has not been created, and a creation attempt on a
  container that exists which throws and changes nothing.
\<close>

definition new_account :: "table_service world" where
  "new_account = fresh \<lparr>table_exists = False, rows = []\<rparr>"

definition throwing_create :: "blob_service \<Rightarrow> (js_error + unit) \<times> blob_service" where
  "throwing_create s = (Inl (conflict_error ''The specified container already exists.''), s)"

section \<open>The configuration guard\<close>

text \<open>
  Claim C6. For every request to either endpoint, whatever its method and parameters: when
  the connection string is absent from the environment, the endpoint answers with status 500
  and the body \<^verbatim>\<open>{error: "Azure Storage connection string not configured"}\<close>, and no storage
  operation is attempted: the list of storage calls and the state of the service are those
  the invocation started with.
\<close>

theorem not_configured_short_circuit:
  "fst (blobStorageApi None bsdk request bw) = Inr not_configured
   \<and> calls (snd (blobStorageApi None bsdk request bw)) = calls bw
   \<and> store (snd (blobStorageApi None bsdk request bw)) = store bw
   \<and> fst (tableStorageApi None tsdk request tw) = Inr not_configured
   \<and> calls (snd (tableStorageApi None tsdk request tw)) = calls tw
   \<and> store (snd (tableStorageApi None tsdk request tw)) = store tw
   \<and> status not_configured = 500
   \<and> body not_configured
       = Json (JObj [(''error'', JStr ''Azure Storage connection string not configured'')])"
  by (simp add: blobStorageApi_def tableStorageApi_def truthy_str_def blob_entered_def
      table_entered_def log_def not_configured_def error_response_def json_response_def)

section \<open>Shared facts about the dispatch\<close>

lemma call_eq:
  "call c f w = (fst (f (store w)), w\<lparr>store := snd (f (store w)), calls := calls w @ [c]\<rparr>)"
  by (simp add: call_def split: prod.split)

lemma ensure_exists_store: "store (ensure_exists c t f w) = snd (f (store w))"
  by (simp add: ensure_exists_def call_eq log_def split: sum.split)

lemma ensure_exists_calls: "calls (ensure_exists c t f w) = calls w @ [c]"
  by (simp add: ensure_exists_def call_eq log_def split: sum.split)

lemma ensure_exists_clock: "clock (ensure_exists c t f w) = clock w"
  by (simp add: ensure_exists_def call_eq log_def split: sum.split)

lemma blob_guarded_calls: "calls (blob_guarded sdk request w0) = calls w0 @ [CreateIfNotExists]"
  by (simp add: blob_guarded_def ensure_exists_calls blob_entered_def log_def)

lemma table_guarded_calls: "calls (table_guarded sdk request w0) = calls w0 @ [CreateTable]"
  by (simp add: table_guarded_def ensure_exists_calls table_entered_def log_def)

lemma blob_dispatch:
  "blob_ready cs sdk \<Longrightarrow>
   blobStorageApi cs sdk request w0 =
     catch_all ''Error in blob storage operation:''
       (if is_method request ''GET'' then blob_handleGetRequest request sdk (blob_guarded sdk request w0)
        else if is_method request ''POST'' then blob_handlePostRequest request sdk (blob_guarded sdk request w0)
        else if is_method request ''DELETE'' then blob_handleDeleteRequest request sdk (blob_guarded sdk request w0)
        else (Inr (error_response 405 ''Method not allowed''), blob_guarded sdk request w0))"
  by (simp add: blob_ready_def blobStorageApi_def is_method_def Let_def)

lemma table_dispatch:
  "table_ready cs sdk \<Longrightarrow>
   tableStorageApi cs sdk request w0 =
     catch_all ''Error in table storage operation:''
       (if is_method request ''GET'' then table_handleGetRequest request sdk (table_guarded sdk request w0)
        else if is_method request ''POST'' then table_handlePostRequest request sdk (table_guarded sdk request w0)
        else if is_method request ''PUT'' then table_handlePutRequest request sdk (table_guarded sdk request w0)
        else if is_method request ''DELETE'' then table_handleDeleteRequest request sdk (table_guarded sdk request w0)
        else (Inr (error_response 405 ''Method not allowed''), table_guarded sdk request w0))"
  by (simp add: table_ready_def tableStorageApi_def is_method_def Let_def)

lemma catch_all_Inr: "catch_all t (Inr r, w) = (Inr r, w)"
  by (simp add: catch_all_def)

lemma is_method_distinct:
  "is_method request ''POST'' \<Longrightarrow> \<not> is_method request ''GET''"
  "is_method request ''PUT'' \<Longrightarrow> \<not> is_method request ''GET'' \<and> \<not> is_method request ''POST''"
  "is_method request ''DELETE'' \<Longrightarrow>
     \<not> is_method request ''GET'' \<and> \<not> is_method request ''POST'' \<and> \<not> is_method request ''PUT''"
  by (simp_all add: is_method_def)

subsection \<open>The presence checks of the handlers\<close>

lemma blob_post_missing:
  "\<not> truthy_str (query_get request ''blobName'') \<Longrightarrow>
   blob_handlePostRequest request sdk w
     = (Inr (error_response 400 ''Missing required parameter: blobName''), w)"
  by (simp add: blob_handlePostRequest_def Let_def)

lemma blob_delete_missing:
  "\<not> truthy_str (query_get request ''blobName'') \<Longrightarrow>
   blob_handleDeleteRequest request sdk w
     = (Inr (error_response 400 ''Missing required parameter: blobName''), w)"
  by (simp add: blob_handleDeleteRequest_def Let_def)

lemma table_post_missing:
  "json request = Inr parsed \<Longrightarrow> destructurable parsed \<Longrightarrow>
   \<not> truthy (get_prop parsed ''userId'') \<or> \<not> truthy (get_prop parsed ''name'')
     \<or> \<not> truthy (get_prop parsed ''email'') \<Longrightarrow>
   table_handlePostRequest request sdk w
     = (Inr (error_response 400 ''Missing required fields: userId, name, email''), w)"
  by (auto simp add: table_handlePostRequest_def)

lemma table_put_missing:
  "json request = Inr parsed \<Longrightarrow> destructurable parsed \<Longrightarrow>
   \<not> truthy (get_prop parsed ''userId'') \<Longrightarrow>
   table_handlePutRequest request sdk w
     = (Inr (error_response 400 ''Missing required field: userId''), w)"
  by (simp add: table_handlePutRequest_def)

lemma table_delete_missing:
  "\<not> truthy_str (query_get request ''userId'') \<Longrightarrow>
   table_handleDeleteRequest request sdk w
     = (Inr (error_response 400 ''Missing required parameter: userId''), w)"
  by (simp add: table_handleDeleteRequest_def Let_def)


lemma blob_endpoint_400:
  assumes "blob_ready cs sdk" and "is_method request ''POST'' \<or> is_method request ''DELETE''"
    and "\<not> truthy_str (query_get request ''blobName'')"
  shows "blobStorageApi cs sdk request w0
           = (Inr (error_response 400 ''Missing required parameter: blobName''),
              blob_guarded sdk request w0)"
  using assms
  by (auto simp add: blob_dispatch blob_post_missing blob_delete_missing catch_all_Inr
      dest: is_method_distinct)

lemma table_endpoint_post_400:
  assumes "table_ready cs sdk" and "is_method request ''POST''"
    and "json request = Inr parsed" and "destructurable parsed"
    and "\<not> truthy (get_prop parsed ''userId'') \<or> \<not> truthy (get_prop parsed ''name'')
          \<or> \<not> truthy (get_prop parsed ''email'')"
  shows "tableStorageApi cs sdk request w0
           = (Inr (error_response 400 ''Missing required fields: userId, name, email''),
              table_guarded sdk request w0)"
  using assms is_method_distinct(1)[of request]
  by (simp add: table_dispatch table_post_missing catch_all_Inr)

lemma table_endpoint_put_400:
  assumes "table_ready cs sdk" and "is_method request ''PUT''"
    and "json request = Inr parsed" and "destructurable parsed"
    and "\<not> truthy (get_prop parsed ''userId'')"
  shows "tableStorageApi cs sdk request w0
           = (Inr (error_response 400 ''Missing required field: userId''),
              table_guarded sdk request w0)"
  using assms is_method_distinct(2)[of request]
  by (simp add: table_dispatch table_put_missing catch_all_Inr)

lemma table_endpoint_delete_400:
  assumes "table_ready cs sdk" and "is_method request ''DELETE''"
    and "\<not> truthy_str (query_get request ''userId'')"
  shows "tableStorageApi cs sdk request w0
           = (Inr (error_response 400 ''Missing required parameter: userId''),
              table_guarded sdk request w0)"
  using assms is_method_distinct(3)[of request]
  by (simp add: table_dispatch table_delete_missing catch_all_Inr)

lemma get_prop_truthy_obj: "truthy (get_prop v k) \<Longrightarrow> destructurable v"
  by (cases v) (simp_all add: destructurable_def)

section \<open>Requests that miss a required field\<close>

text \<open>
  Claim C1, as amended. When the credential is configured and the client is constructed: a
  blob POST or DELETE without \<^verbatim>\<open>blobName\<close>, a table POST whose body (parsed, not null) lacks
  \<^verbatim>\<open>userId\<close>, \<^verbatim>\<open>name\<close> or \<^verbatim>\<open>email\<close>, a table PUT whose body (parsed, not null) lacks
  \<^verbatim>\<open>userId\<close>, and a table DELETE without \<^verbatim>\<open>userId\<close> are answered with 400, and the only
  storage call of the invocation is the creation attempt of the guard step
  (\<^verbatim>\<open>createIfNotExists\<close>, \<^verbatim>\<open>createTable\<close>), which precedes the dispatch; the method handler adds
  none.
\<close>

theorem missing_required_is_400:
  "(blob_ready cs bsdk \<and> (is_method rb ''POST'' \<or> is_method rb ''DELETE'')
      \<and> query_get rb ''blobName'' = None
    \<longrightarrow> fst (blobStorageApi cs bsdk rb bw)
          = Inr (error_response 400 ''Missing required parameter: blobName'')
        \<and> calls (snd (blobStorageApi cs bsdk rb bw)) = calls bw @ [CreateIfNotExists])
   \<and> (table_ready cs tsdk \<and> is_method rp ''POST'' \<and> json rp = Inr pp \<and> destructurable pp
        \<and> (get_prop pp ''userId'' = JUndefined \<or> get_prop pp ''name'' = JUndefined
             \<or> get_prop pp ''email'' = JUndefined)
      \<longrightarrow> fst (tableStorageApi cs tsdk rp tw)
            = Inr (error_response 400 ''Missing required fields: userId, name, email'')
          \<and> calls (snd (tableStorageApi cs tsdk rp tw)) = calls tw @ [CreateTable])
   \<and> (table_ready cs tsdk \<and> is_method ru ''PUT'' \<and> json ru = Inr pu \<and> destructurable pu
        \<and> get_prop pu ''userId'' = JUndefined
      \<longrightarrow> fst (tableStorageApi cs tsdk ru tw)
            = Inr (error_response 400 ''Missing required field: userId'')
          \<and> calls (snd (tableStorageApi cs tsdk ru tw)) = calls tw @ [CreateTable])
   \<and> (table_ready cs tsdk \<and> is_method rd ''DELETE'' \<and> query_get rd ''userId'' = None
      \<longrightarrow> fst (tableStorageApi cs tsdk rd tw)
            = Inr (error_response 400 ''Missing required parameter: userId'')
          \<and> calls (snd (tableStorageApi cs tsdk rd tw)) = calls tw @ [CreateTable])"
proof (intro conjI impI)
  assume h: "blob_ready cs bsdk \<and> (is_method rb ''POST'' \<or> is_method rb ''DELETE'')
      \<and> query_get rb ''blobName'' = None"
  then have "blobStorageApi cs bsdk rb bw
           = (Inr (error_response 400 ''Missing required parameter: blobName''),
              blob_guarded bsdk rb bw)"
    by (intro blob_endpoint_400) (simp_all add: truthy_str_def)
  then show "fst (blobStorageApi cs bsdk rb bw)
          = Inr (error_response 400 ''Missing required parameter: blobName'')"
    and "calls (snd (blobStorageApi cs bsdk rb bw)) = calls bw @ [CreateIfNotExists]"
    by (simp_all add: blob_guarded_calls)
next
  assume h: "table_ready cs tsdk \<and> is_method rp ''POST'' \<and> json rp = Inr pp \<and> destructurable pp
        \<and> (get_prop pp ''userId'' = JUndefined \<or> get_prop pp ''name'' = JUndefined
             \<or> get_prop pp ''email'' = JUndefined)"
  then have "\<not> truthy (get_prop pp ''userId'') \<or> \<not> truthy (get_prop pp ''name'')
          \<or> \<not> truthy (get_prop pp ''email'')"
    by auto
  with h have "tableStorageApi cs tsdk rp tw
           = (Inr (error_response 400 ''Missing required fields: userId, name, email''),
              table_guarded tsdk rp tw)"
    by (intro table_endpoint_post_400[where parsed = pp]) simp_all
  then show "fst (tableStorageApi cs tsdk rp tw)
            = Inr (error_response 400 ''Missing required fields: userId, name, email'')"
    and "calls (snd (tableStorageApi cs tsdk rp tw)) = calls tw @ [CreateTable]"
    by (simp_all add: table_guarded_calls)
next
  assume h: "table_ready cs tsdk \<and> is_method ru ''PUT'' \<and> json ru = Inr pu \<and> destructurable pu
        \<and> get_prop pu ''userId'' = JUndefined"
  then have "tableStorageApi cs tsdk ru tw
           = (Inr (error_response 400 ''Missing required field: userId''),
              table_guarded tsdk ru tw)"
    by (intro table_endpoint_put_400[where parsed = pu]) simp_all
  then show "fst (tableStorageApi cs tsdk ru tw)
            = Inr (error_response 400 ''Missing required field: userId'')"
    and "calls (snd (tableStorageApi cs tsdk ru tw)) = calls tw @ [CreateTable]"
    by (simp_all add: table_guarded_calls)
next
  assume h: "table_ready cs tsdk \<and> is_method rd ''DELETE'' \<and> query_get rd ''userId'' = None"
  then have "tableStorageApi cs tsdk rd tw
           = (Inr (error_response 400 ''Missing required parameter: userId''),
              table_guarded tsdk rd tw)"
    by (intro table_endpoint_delete_400) (simp_all add: truthy_str_def)
  then show "fst (tableStorageApi cs tsdk rd tw)
            = Inr (error_response 400 ''Missing required parameter: userId'')"
    and "calls (snd (tableStorageApi cs tsdk rd tw)) = calls tw @ [CreateTable]"
    by (simp_all add: table_guarded_calls)
qed


subsection \<open>Unfolding the model on concrete inputs\<close>

lemmas value_defs =
  Let_def new_account_def throwing_create_def
  one_blob_container_def no_stream_sdk_def unavailable_error_def unavailable_sdk_def
  u1_body_def u1_record_def one_user_table_def
  js_or_def truthy_str_def str_or_def has_prop_def upper_char_def toUpperCase_def
  query_get_def headers_get_def json_response_def error_response_def internal_server_error_def
  UserEntity_obj_def log_def call_def catch_not_found_def catch_all_def
  not_configured_def ensure_exists_def destructurable_def get_department_def make_userEntity_def
  blob_ready_def table_ready_def is_method_def error_or_message_def
  sample_request_def sample_credential_def empty_table_def empty_container_def fresh_def

lemmas blob_defs =
  blob_download_try_def blob_item_obj_def blob_handleGetRequest_def blob_handlePostRequest_def
  blob_handleDeleteRequest_def blob_entered_def blob_guarded_def blobStorageApi_def
  ref_createIfNotExists_def ref_download_def ref_getProperties_def ref_listBlobsFlat_def
  ref_upload_def ref_deleteBlob_def ref_BlobSdk_def not_found_error_def

lemmas table_defs =
  table_handleGetRequest_def table_handlePostRequest_def table_handlePutRequest_def
  table_handleDeleteRequest_def table_entered_def table_guarded_def tableStorageApi_def
  not_found_error_def conflict_error_def remove_row_def merge_obj_def entity_key_def
  ref_createTable_def ref_getEntity_def ref_listEntities_def ref_createEntity_def
  ref_upsertEntity_def ref_deleteEntity_def ref_TableSdk_def

text \<open>
  Claim C1 as stated, that the 400 is returned without any storage call being attempted, fails:
  a table POST with the body \<^verbatim>\<open>{}\<close> is answered with 400 after \<^verbatim>\<open>createTable\<close> has been called.
\<close>

theorem store_call_before_400:
  "fst (tableStorageApi sample_credential ref_TableSdk (sample_request ''POST'' [] (JObj []))
          empty_table)
     = Inr (error_response 400 ''Missing required fields: userId, name, email'')
   \<and> calls empty_table = []
   \<and> calls (snd (tableStorageApi sample_credential ref_TableSdk
                    (sample_request ''POST'' [] (JObj [])) empty_table))
       = [CreateTable]"
  by (simp add: value_defs table_defs)

text \<open>The amended claim at concrete requests against the reference services.\<close>

theorem missing_required_is_400_witness:
  "(blob_ready sample_credential ref_BlobSdk
      \<and> (is_method (sample_request ''POST'' [] JNull) ''POST'')
      \<and> query_get (sample_request ''POST'' [] JNull) ''blobName'' = None
      \<and> fst (blobStorageApi sample_credential ref_BlobSdk (sample_request ''POST'' [] JNull)
               empty_container)
          = Inr (error_response 400 ''Missing required parameter: blobName'')
      \<and> calls (snd (blobStorageApi sample_credential ref_BlobSdk
                       (sample_request ''POST'' [] JNull) empty_container))
          = [CreateIfNotExists])
   \<and> (table_ready sample_credential ref_TableSdk
        \<and> is_method (sample_request ''post'' [] (JObj [(''userId'', JStr ''u1'')])) ''POST''
        \<and> destructurable (JObj [(''userId'', JStr ''u1'')])
        \<and> get_prop (JObj [(''userId'', JStr ''u1'')]) ''name'' = JUndefined
        \<and> fst (tableStorageApi sample_credential ref_TableSdk
                 (sample_request ''post'' [] (JObj [(''userId'', JStr ''u1'')])) empty_table)
            = Inr (error_response 400 ''Missing required fields: userId, name, email'')
        \<and> calls (snd (tableStorageApi sample_credential ref_TableSdk
                         (sample_request ''post'' [] (JObj [(''userId'', JStr ''u1'')]))
                         empty_table))
            = [CreateTable])
   \<and> (is_method (sample_request ''PUT'' [] (JObj [(''name'', JStr ''A'')])) ''PUT''
        \<and> get_prop (JObj [(''name'', JStr ''A'')]) ''userId'' = JUndefined
        \<and> fst (tableStorageApi sample_credential ref_TableSdk
                 (sample_request ''PUT'' [] (JObj [(''name'', JStr ''A'')])) empty_table)
            = Inr (error_response 400 ''Missing required field: userId''))
   \<and> (is_method (sample_request ''DELETE'' [(''department'', ''ops'')] JNull) ''DELETE''
        \<and> query_get (sample_request ''DELETE'' [(''department'', ''ops'')] JNull) ''userId''
            = None
        \<and> fst (tableStorageApi sample_credential ref_TableSdk
                 (sample_request ''DELETE'' [(''department'', ''ops'')] JNull) empty_table)
            = Inr (error_response 400 ''Missing required parameter: userId''))"
  using missing_required_is_400
    [of sample_credential ref_BlobSdk "sample_request ''POST'' [] JNull" empty_container
        ref_TableSdk "sample_request ''post'' [] (JObj [(''userId'', JStr ''u1'')])"
        "JObj [(''userId'', JStr ''u1'')]" empty_table
        "sample_request ''PUT'' [] (JObj [(''name'', JStr ''A'')])" "JObj [(''name'', JStr ''A'')]"
        "sample_request ''DELETE'' [(''department'', ''ops'')] JNull"]
  by (simp add: value_defs table_defs blob_defs)

section \<open>Empty strings\<close>

lemma get_prop_str_obj: "get_prop v k = JStr t \<Longrightarrow> destructurable v"
  by (cases v) (simp_all add: destructurable_def)

text \<open>
  Claim C9. The presence checks test falsiness, so a required value that is supplied but is the
  empty string is answered as a missing one. For \<^verbatim>\<open>blobName\<close> of the blob POST and DELETE,
  for \<^verbatim>\<open>userId\<close>, \<^verbatim>\<open>name\<close> and \<^verbatim>\<open>email\<close> in the body of the table POST, for \<^verbatim>\<open>userId\<close>
  in the body of the table PUT and for \<^verbatim>\<open>userId\<close> of the table DELETE: the handler returns
  the 400 response and leaves the world as it was, the same result as for a request in which
  the value is absent; and when the endpoint is ready and the method matches, the endpoint
  returns that 400 response.
\<close>

theorem empty_string_counts_as_missing:
  "(query_get rb ''blobName'' = Some [] \<and> query_get rb' ''blobName'' = None
    \<longrightarrow> blob_handlePostRequest rb bsdk bw
          = (Inr (error_response 400 ''Missing required parameter: blobName''), bw)
        \<and> blob_handlePostRequest rb bsdk bw = blob_handlePostRequest rb' bsdk bw
        \<and> blob_handleDeleteRequest rb bsdk bw
          = (Inr (error_response 400 ''Missing required parameter: blobName''), bw)
        \<and> blob_handleDeleteRequest rb bsdk bw = blob_handleDeleteRequest rb' bsdk bw
        \<and> (blob_ready cs bsdk \<and> (is_method rb ''POST'' \<or> is_method rb ''DELETE'')
             \<longrightarrow> fst (blobStorageApi cs bsdk rb bw)
                   = Inr (error_response 400 ''Missing required parameter: blobName'')))
   \<and> (json rp = Inr pp
        \<and> (get_prop pp ''userId'' = JStr [] \<or> get_prop pp ''name'' = JStr []
             \<or> get_prop pp ''email'' = JStr [])
        \<and> json rp' = Inr pp' \<and> destructurable pp'
        \<and> (get_prop pp' ''userId'' = JUndefined \<or> get_prop pp' ''name'' = JUndefined
             \<or> get_prop pp' ''email'' = JUndefined)
      \<longrightarrow> table_handlePostRequest rp tsdk tw
            = (Inr (error_response 400 ''Missing required fields: userId, name, email''), tw)
          \<and> table_handlePostRequest rp tsdk tw = table_handlePostRequest rp' tsdk tw
          \<and> (table_ready cs tsdk \<and> is_method rp ''POST''
               \<longrightarrow> fst (tableStorageApi cs tsdk rp tw)
                     = Inr (error_response 400 ''Missing required fields: userId, name, email'')))
   \<and> (json ru = Inr pu \<and> get_prop pu ''userId'' = JStr []
        \<and> json ru' = Inr pu' \<and> destructurable pu' \<and> get_prop pu' ''userId'' = JUndefined
      \<longrightarrow> table_handlePutRequest ru tsdk tw
            = (Inr (error_response 400 ''Missing required field: userId''), tw)
          \<and> table_handlePutRequest ru tsdk tw = table_handlePutRequest ru' tsdk tw
          \<and> (table_ready cs tsdk \<and> is_method ru ''PUT''
               \<longrightarrow> fst (tableStorageApi cs tsdk ru tw)
                     = Inr (error_response 400 ''Missing required field: userId'')))
   \<and> (query_get rd ''userId'' = Some [] \<and> query_get rd' ''userId'' = None
      \<longrightarrow> table_handleDeleteRequest rd tsdk tw
            = (Inr (error_response 400 ''Missing required parameter: userId''), tw)
          \<and> table_handleDeleteRequest rd tsdk tw = table_handleDeleteRequest rd' tsdk tw
          \<and> (table_ready cs tsdk \<and> is_method rd ''DELETE''
               \<longrightarrow> fst (tableStorageApi cs tsdk rd tw)
                     = Inr (error_response 400 ''Missing required parameter: userId'')))"
proof (intro conjI)
  show "query_get rb ''blobName'' = Some [] \<and> query_get rb' ''blobName'' = None
    \<longrightarrow> blob_handlePostRequest rb bsdk bw
          = (Inr (error_response 400 ''Missing required parameter: blobName''), bw)
        \<and> blob_handlePostRequest rb bsdk bw = blob_handlePostRequest rb' bsdk bw
        \<and> blob_handleDeleteRequest rb bsdk bw
          = (Inr (error_response 400 ''Missing required parameter: blobName''), bw)
        \<and> blob_handleDeleteRequest rb bsdk bw = blob_handleDeleteRequest rb' bsdk bw
        \<and> (blob_ready cs bsdk \<and> (is_method rb ''POST'' \<or> is_method rb ''DELETE'')
             \<longrightarrow> fst (blobStorageApi cs bsdk rb bw)
                   = Inr (error_response 400 ''Missing required parameter: blobName''))"
  proof
    assume h: "query_get rb ''blobName'' = Some [] \<and> query_get rb' ''blobName'' = None"
    then have f: "\<not> truthy_str (query_get rb ''blobName'')"
      and f': "\<not> truthy_str (query_get rb' ''blobName'')"
      by (simp_all add: truthy_str_def)
    show "blob_handlePostRequest rb bsdk bw
          = (Inr (error_response 400 ''Missing required parameter: blobName''), bw)
        \<and> blob_handlePostRequest rb bsdk bw = blob_handlePostRequest rb' bsdk bw
        \<and> blob_handleDeleteRequest rb bsdk bw
          = (Inr (error_response 400 ''Missing required parameter: blobName''), bw)
        \<and> blob_handleDeleteRequest rb bsdk bw = blob_handleDeleteRequest rb' bsdk bw
        \<and> (blob_ready cs bsdk \<and> (is_method rb ''POST'' \<or> is_method rb ''DELETE'')
             \<longrightarrow> fst (blobStorageApi cs bsdk rb bw)
                   = Inr (error_response 400 ''Missing required parameter: blobName''))"
      using f f' by (simp add: blob_post_missing blob_delete_missing blob_endpoint_400)
  qed
next
  show "json rp = Inr pp
        \<and> (get_prop pp ''userId'' = JStr [] \<or> get_prop pp ''name'' = JStr []
             \<or> get_prop pp ''email'' = JStr [])
        \<and> json rp' = Inr pp' \<and> destructurable pp'
        \<and> (get_prop pp' ''userId'' = JUndefined \<or> get_prop pp' ''name'' = JUndefined
             \<or> get_prop pp' ''email'' = JUndefined)
      \<longrightarrow> table_handlePostRequest rp tsdk tw
            = (Inr (error_response 400 ''Missing required fields: userId, name, email''), tw)
          \<and> table_handlePostRequest rp tsdk tw = table_handlePostRequest rp' tsdk tw
          \<and> (table_ready cs tsdk \<and> is_method rp ''POST''
               \<longrightarrow> fst (tableStorageApi cs tsdk rp tw)
                     = Inr (error_response 400 ''Missing required fields: userId, name, email''))"
  proof
    assume h: "json rp = Inr pp
        \<and> (get_prop pp ''userId'' = JStr [] \<or> get_prop pp ''name'' = JStr []
             \<or> get_prop pp ''email'' = JStr [])
        \<and> json rp' = Inr pp' \<and> destructurable pp'
        \<and> (get_prop pp' ''userId'' = JUndefined \<or> get_prop pp' ''name'' = JUndefined
             \<or> get_prop pp' ''email'' = JUndefined)"
    then have d: "destructurable pp"
      by (auto dest: get_prop_str_obj)
    from h have f: "\<not> truthy (get_prop pp ''userId'') \<or> \<not> truthy (get_prop pp ''name'')
          \<or> \<not> truthy (get_prop pp ''email'')"
      by auto
    from h have f': "\<not> truthy (get_prop pp' ''userId'') \<or> \<not> truthy (get_prop pp' ''name'')
          \<or> \<not> truthy (get_prop pp' ''email'')"
      by auto
    have 1: "table_handlePostRequest rp tsdk tw
            = (Inr (error_response 400 ''Missing required fields: userId, name, email''), tw)"
      using h d f by (intro table_post_missing[where parsed = pp]) simp_all
    have 2: "table_handlePostRequest rp' tsdk tw
            = (Inr (error_response 400 ''Missing required fields: userId, name, email''), tw)"
      using h f' by (intro table_post_missing[where parsed = pp']) simp_all
    have 3: "table_ready cs tsdk \<and> is_method rp ''POST''
               \<longrightarrow> fst (tableStorageApi cs tsdk rp tw)
                     = Inr (error_response 400 ''Missing required fields: userId, name, email'')"
      using h d f by (simp add: table_endpoint_post_400[where parsed = pp])
    from 1 2 3 show "table_handlePostRequest rp tsdk tw
            = (Inr (error_response 400 ''Missing required fields: userId, name, email''), tw)
          \<and> table_handlePostRequest rp tsdk tw = table_handlePostRequest rp' tsdk tw
          \<and> (table_ready cs tsdk \<and> is_method rp ''POST''
               \<longrightarrow> fst (tableStorageApi cs tsdk rp tw)
                     = Inr (error_response 400 ''Missing required fields: userId, name, email''))"
      by simp
  qed
next
  show "json ru = Inr pu \<and> get_prop pu ''userId'' = JStr []
        \<and> json ru' = Inr pu' \<and> destructurable pu' \<and> get_prop pu' ''userId'' = JUndefined
      \<longrightarrow> table_handlePutRequest ru tsdk tw
            = (Inr (error_response 400 ''Missing required field: userId''), tw)
          \<and> table_handlePutRequest ru tsdk tw = table_handlePutRequest ru' tsdk tw
          \<and> (table_ready cs tsdk \<and> is_method ru ''PUT''
               \<longrightarrow> fst (tableStorageApi cs tsdk ru tw)
                     = Inr (error_response 400 ''Missing required field: userId''))"
  proof
    assume h: "json ru = Inr pu \<and> get_prop pu ''userId'' = JStr []
        \<and> json ru' = Inr pu' \<and> destructurable pu' \<and> get_prop pu' ''userId'' = JUndefined"
    then have d: "destructurable pu"
      by (auto dest: get_prop_str_obj)
    have 1: "table_handlePutRequest ru tsdk tw
            = (Inr (error_response 400 ''Missing required field: userId''), tw)"
      using h d by (intro table_put_missing[where parsed = pu]) simp_all
    have 2: "table_handlePutRequest ru' tsdk tw
            = (Inr (error_response 400 ''Missing required field: userId''), tw)"
      using h by (intro table_put_missing[where parsed = pu']) simp_all
    have 3: "table_ready cs tsdk \<and> is_method ru ''PUT''
               \<longrightarrow> fst (tableStorageApi cs tsdk ru tw)
                     = Inr (error_response 400 ''Missing required field: userId'')"
      using h d by (simp add: table_endpoint_put_400[where parsed = pu])
    from 1 2 3 show "table_handlePutRequest ru tsdk tw
            = (Inr (error_response 400 ''Missing required field: userId''), tw)
          \<and> table_handlePutRequest ru tsdk tw = table_handlePutRequest ru' tsdk tw
          \<and> (table_ready cs tsdk \<and> is_method ru ''PUT''
               \<longrightarrow> fst (tableStorageApi cs tsdk ru tw)
                     = Inr (error_response 400 ''Missing required field: userId''))"
      by simp
  qed
next
  show "query_get rd ''userId'' = Some [] \<and> query_get rd' ''userId'' = None
      \<longrightarrow> table_handleDeleteRequest rd tsdk tw
            = (Inr (error_response 400 ''Missing required parameter: userId''), tw)
          \<and> table_handleDeleteRequest rd tsdk tw = table_handleDeleteRequest rd' tsdk tw
          \<and> (table_ready cs tsdk \<and> is_method rd ''DELETE''
               \<longrightarrow> fst (tableStorageApi cs tsdk rd tw)
                     = Inr (error_response 400 ''Missing required parameter: userId''))"
  proof
    assume h: "query_get rd ''userId'' = Some [] \<and> query_get rd' ''userId'' = None"
    then have f: "\<not> truthy_str (query_get rd ''userId'')"
      and f': "\<not> truthy_str (query_get rd' ''userId'')"
      by (simp_all add: truthy_str_def)
    show "table_handleDeleteRequest rd tsdk tw
            = (Inr (error_response 400 ''Missing required parameter: userId''), tw)
          \<and> table_handleDeleteRequest rd tsdk tw = table_handleDeleteRequest rd' tsdk tw
          \<and> (table_ready cs tsdk \<and> is_method rd ''DELETE''
               \<longrightarrow> fst (tableStorageApi cs tsdk rd tw)
                     = Inr (error_response 400 ''Missing required parameter: userId''))"
      using f f' by (simp add: table_delete_missing table_endpoint_delete_400)
  qed
qed


text \<open>The claim at concrete requests: an empty value beside a request without the value.\<close>

theorem empty_string_counts_as_missing_witness:
  "query_get (sample_request ''POST'' [(''blobName'', [])] JNull) ''blobName'' = Some []
   \<and> query_get (sample_request ''POST'' [] JNull) ''blobName'' = None
   \<and> blob_ready sample_credential ref_BlobSdk
   \<and> is_method (sample_request ''POST'' [(''blobName'', [])] JNull) ''POST''
   \<and> fst (blobStorageApi sample_credential ref_BlobSdk
             (sample_request ''POST'' [(''blobName'', [])] JNull) empty_container)
       = Inr (error_response 400 ''Missing required parameter: blobName'')
   \<and> blob_handleDeleteRequest (sample_request ''POST'' [(''blobName'', [])] JNull) ref_BlobSdk
         empty_container
       = blob_handleDeleteRequest (sample_request ''POST'' [] JNull) ref_BlobSdk empty_container
   \<and> get_prop (JObj [(''userId'', JStr ''u1''), (''name'', JStr []), (''email'', JStr ''a@x.com'')])
         ''name'' = JStr []
   \<and> get_prop (JObj [(''userId'', JStr ''u1''), (''email'', JStr ''a@x.com'')]) ''name''
       = JUndefined
   \<and> table_ready sample_credential ref_TableSdk
   \<and> fst (tableStorageApi sample_credential ref_TableSdk
             (sample_request ''POST'' []
                (JObj [(''userId'', JStr ''u1''), (''name'', JStr []), (''email'', JStr ''a@x.com'')]))
             empty_table)
       = Inr (error_response 400 ''Missing required fields: userId, name, email'')
   \<and> table_handlePostRequest
         (sample_request ''POST'' []
            (JObj [(''userId'', JStr ''u1''), (''name'', JStr []), (''email'', JStr ''a@x.com'')]))
         ref_TableSdk empty_table
       = table_handlePostRequest
           (sample_request ''POST'' []
              (JObj [(''userId'', JStr ''u1''), (''email'', JStr ''a@x.com'')]))
           ref_TableSdk empty_table
   \<and> get_prop (JObj [(''userId'', JStr []), (''name'', JStr ''A'')]) ''userId'' = JStr []
   \<and> get_prop (JObj [(''name'', JStr ''A'')]) ''userId'' = JUndefined
   \<and> fst (tableStorageApi sample_credential ref_TableSdk
             (sample_request ''PUT'' [] (JObj [(''userId'', JStr []), (''name'', JStr ''A'')]))
             empty_table)
       = Inr (error_response 400 ''Missing required field: userId'')
   \<and> query_get (sample_request ''DELETE'' [(''userId'', [])] JNull) ''userId'' = Some []
   \<and> query_get (sample_request ''DELETE'' [] JNull) ''userId'' = None
   \<and> fst (tableStorageApi sample_credential ref_TableSdk
             (sample_request ''DELETE'' [(''userId'', [])] JNull) empty_table)
       = Inr (error_response 400 ''Missing required parameter: userId'')"
  using empty_string_counts_as_missing
    [where rb = "sample_request ''POST'' [(''blobName'', [])] JNull"
       and rb' = "sample_request ''POST'' [] JNull"
       and bsdk = ref_BlobSdk and bw = empty_container and cs = sample_credential
       and pp = "JObj [(''userId'', JStr ''u1''), (''name'', JStr []), (''email'', JStr ''a@x.com'')]"
       and rp = "sample_request ''POST'' []
                   (JObj [(''userId'', JStr ''u1''), (''name'', JStr []), (''email'', JStr ''a@x.com'')])"
       and pp' = "JObj [(''userId'', JStr ''u1''), (''email'', JStr ''a@x.com'')]"
       and rp' = "sample_request ''POST'' []
                    (JObj [(''userId'', JStr ''u1''), (''email'', JStr ''a@x.com'')])"
       and tsdk = ref_TableSdk and tw = empty_table
       and pu = "JObj [(''userId'', JStr []), (''name'', JStr ''A'')]"
       and ru = "sample_request ''PUT'' [] (JObj [(''userId'', JStr []), (''name'', JStr ''A'')])"
       and pu' = "JObj [(''name'', JStr ''A'')]"
       and ru' = "sample_request ''PUT'' [] (JObj [(''name'', JStr ''A'')])"
       and rd = "sample_request ''DELETE'' [(''userId'', [])] JNull"
       and rd' = "sample_request ''DELETE'' [] JNull"]
  by (simp add: value_defs table_defs blob_defs)

section \<open>Failures of the storage calls\<close>

lemma catch_all_fst:
  "fst (catch_all t rw) = Inr (case fst rw of Inl e \<Rightarrow> internal_server_error e | Inr r \<Rightarrow> r)"
  by (cases rw; cases "fst rw") (auto simp add: catch_all_def)

lemma catch_not_found_fst:
  "fst (catch_not_found t rw) =
     (case fst rw of
        Inl e \<Rightarrow> if statusCode e = Some 404 then Inr (error_response 404 t) else Inl e
      | Inr r \<Rightarrow> Inr r)"
  by (cases rw; cases "fst rw") (auto simp add: catch_not_found_def)

lemma blob_endpoint_get:
  "blob_ready cs sdk \<Longrightarrow> is_method request ''GET'' \<Longrightarrow>
   fst (blobStorageApi cs sdk request w0) =
     Inr (case fst (blob_handleGetRequest request sdk (blob_guarded sdk request w0)) of
            Inl e \<Rightarrow> internal_server_error e | Inr r \<Rightarrow> r)"
  by (simp add: blob_dispatch catch_all_fst)

lemma blob_endpoint_delete:
  "blob_ready cs sdk \<Longrightarrow> is_method request ''DELETE'' \<Longrightarrow>
   fst (blobStorageApi cs sdk request w0) =
     Inr (case fst (blob_handleDeleteRequest request sdk (blob_guarded sdk request w0)) of
            Inl e \<Rightarrow> internal_server_error e | Inr r \<Rightarrow> r)"
  using is_method_distinct(3)[of request] by (simp add: blob_dispatch catch_all_fst)

lemma table_endpoint_get:
  "table_ready cs sdk \<Longrightarrow> is_method request ''GET'' \<Longrightarrow>
   fst (tableStorageApi cs sdk request w0) =
     Inr (case fst (table_handleGetRequest request sdk (table_guarded sdk request w0)) of
            Inl e \<Rightarrow> internal_server_error e | Inr r \<Rightarrow> r)"
  by (simp add: table_dispatch catch_all_fst)

lemma table_endpoint_post:
  "table_ready cs sdk \<Longrightarrow> is_method request ''POST'' \<Longrightarrow>
   fst (tableStorageApi cs sdk request w0) =
     Inr (case fst (table_handlePostRequest request sdk (table_guarded sdk request w0)) of
            Inl e \<Rightarrow> internal_server_error e | Inr r \<Rightarrow> r)"
  using is_method_distinct(1)[of request] by (simp add: table_dispatch catch_all_fst)

lemma table_endpoint_put:
  "table_ready cs sdk \<Longrightarrow> is_method request ''PUT'' \<Longrightarrow>
   fst (tableStorageApi cs sdk request w0) =
     Inr (case fst (table_handlePutRequest request sdk (table_guarded sdk request w0)) of
            Inl e \<Rightarrow> internal_server_error e | Inr r \<Rightarrow> r)"
  using is_method_distinct(2)[of request] by (simp add: table_dispatch catch_all_fst)

lemma table_endpoint_delete:
  "table_ready cs sdk \<Longrightarrow> is_method request ''DELETE'' \<Longrightarrow>
   fst (tableStorageApi cs sdk request w0) =
     Inr (case fst (table_handleDeleteRequest request sdk (table_guarded sdk request w0)) of
            Inl e \<Rightarrow> internal_server_error e | Inr r \<Rightarrow> r)"
  using is_method_distinct(3)[of request] by (simp add: table_dispatch catch_all_fst)

subsection \<open>What each handler makes of a failed call\<close>

lemma named_truthy: "v = Some b \<Longrightarrow> b \<noteq> [] \<Longrightarrow> truthy_str v \<and> str_or v d = b"
  by (simp add: truthy_str_def str_or_def)

lemma blob_get_download_fails:
  assumes "query_get request ''blobName'' = Some b" and "b \<noteq> []"
    and "fst (download sdk b (store w)) = Inl e"
  shows "fst (blob_handleGetRequest request sdk w) =
           (if statusCode e = Some 404 then Inr (error_response 404 ''Blob not found'') else Inl e)"
  using assms named_truthy[of "query_get request ''blobName''" b "[]"]
  by (simp add: blob_handleGetRequest_def Let_def catch_not_found_fst blob_download_try_def call_eq)

lemma blob_get_properties_fails:
  assumes "query_get request ''blobName'' = Some b" and "b \<noteq> []"
    and "fst (download sdk b (store w)) = Inr response"
    and "readableStreamBody response = Some (Inr chunks)"
    and "fst (getProperties sdk b (snd (download sdk b (store w)))) = Inl e"
  shows "fst (blob_handleGetRequest request sdk w) =
           (if statusCode e = Some 404 then Inr (error_response 404 ''Blob not found'') else Inl e)"
  using assms named_truthy[of "query_get request ''blobName''" b "[]"]
  by (simp add: blob_handleGetRequest_def Let_def catch_not_found_fst blob_download_try_def call_eq)

lemma blob_get_no_stream:
  assumes "query_get request ''blobName'' = Some b" and "b \<noteq> []"
    and "fst (download sdk b (store w)) = Inr response"
    and "readableStreamBody response = None"
  shows "blob_handleGetRequest request sdk w =
           (Inr (error_response 404 ''Blob not found or empty''),
            w\<lparr>store := snd (download sdk b (store w)), calls := calls w @ [Download b]\<rparr>)"
  using assms named_truthy[of "query_get request ''blobName''" b "[]"]
  by (simp add: blob_handleGetRequest_def Let_def catch_not_found_def blob_download_try_def call_eq)

lemma blob_delete_fails:
  assumes "query_get request ''blobName'' = Some b" and "b \<noteq> []"
    and "fst (deleteBlob sdk b (store w)) = Inl e"
  shows "fst (blob_handleDeleteRequest request sdk w) =
           (if statusCode e = Some 404 then Inr (error_response 404 ''Blob not found'') else Inl e)"
  using assms named_truthy[of "query_get request ''blobName''" b "[]"]
  by (simp add: blob_handleDeleteRequest_def Let_def catch_not_found_fst call_eq)

lemma table_get_fails:
  assumes "query_get request ''userId'' = Some u" and "u \<noteq> []"
    and "fst (getEntity sdk (str_or (query_get request ''department'') ''default'') u (store w))
           = Inl e"
  shows "fst (table_handleGetRequest request sdk w) =
           (if statusCode e = Some 404 then Inr (error_response 404 ''User not found'') else Inl e)"
  using assms named_truthy[of "query_get request ''userId''" u "[]"]
  by (simp add: table_handleGetRequest_def Let_def catch_not_found_fst call_eq)

lemma table_delete_fails:
  assumes "query_get request ''userId'' = Some u" and "u \<noteq> []"
    and "fst (deleteEntity sdk (str_or (query_get request ''department'') ''default'') u (store w))
           = Inl e"
  shows "fst (table_handleDeleteRequest request sdk w) =
           (if statusCode e = Some 404 then Inr (error_response 404 ''User not found'') else Inl e)"
  using assms named_truthy[of "query_get request ''userId''" u "[]"]
  by (simp add: table_handleDeleteRequest_def Let_def catch_not_found_fst call_eq)

text \<open>
  Claim C10. A blob GET that names a blob, whose download call succeeds with a response that
  has no readable stream body, is answered with status 404 and the body
  \<^verbatim>\<open>{error: "Blob not found or empty"}\<close>, not with the 200 response that carries the bytes; the
  download is the only storage call the handler makes. The same holds for the endpoint when it
  is ready and the method is GET.
\<close>

theorem download_without_stream_is_404:
  assumes "query_get request ''blobName'' = Some b" and "b \<noteq> []"
    and "fst (download sdk b (store w)) = Inr response"
    and "readableStreamBody response = None"
  shows "fst (blob_handleGetRequest request sdk w)
           = Inr (error_response 404 ''Blob not found or empty'')
         \<and> calls (snd (blob_handleGetRequest request sdk w)) = calls w @ [Download b]
         \<and> (blob_ready cs sdk \<and> is_method request ''GET'' \<and> w = blob_guarded sdk request w0
              \<longrightarrow> fst (blobStorageApi cs sdk request w0)
                    = Inr (error_response 404 ''Blob not found or empty''))
         \<and> status (error_response 404 ''Blob not found or empty'') = 404
         \<and> body (error_response 404 ''Blob not found or empty'')
             = Json (JObj [(''error'', JStr ''Blob not found or empty'')])"
  using blob_get_no_stream[OF assms]
  by (auto simp add: blob_endpoint_get error_response_def json_response_def)


text \<open>
  Claim C4. For the blob GET that names a blob, the blob DELETE, the table GET that names a
  user and the table DELETE: when the storage call fails with an error \<open>e\<close>, the handler
  returns the 404 response with an error body if the status code of \<open>e\<close> is 404, and throws
  \<open>e\<close> again otherwise; the endpoint then answers the rethrown error with the 500 response of
  its outer \<^verbatim>\<open>catch\<close>.
\<close>

theorem not_found_translation:
  "(query_get rg ''blobName'' = Some b \<and> b \<noteq> [] \<and> fst (download bsdk b (store bw)) = Inl e
    \<longrightarrow> fst (blob_handleGetRequest rg bsdk bw)
          = (if statusCode e = Some 404 then Inr (error_response 404 ''Blob not found'')
             else Inl e)
        \<and> (blob_ready cs bsdk \<and> is_method rg ''GET'' \<and> bw = blob_guarded bsdk rg bw0
             \<longrightarrow> fst (blobStorageApi cs bsdk rg bw0)
                   = Inr (if statusCode e = Some 404 then error_response 404 ''Blob not found''
                          else internal_server_error e)))
   \<and> (query_get rx ''blobName'' = Some b \<and> b \<noteq> [] \<and> fst (deleteBlob bsdk b (store bw)) = Inl e
      \<longrightarrow> fst (blob_handleDeleteRequest rx bsdk bw)
            = (if statusCode e = Some 404 then Inr (error_response 404 ''Blob not found'')
               else Inl e)
          \<and> (blob_ready cs bsdk \<and> is_method rx ''DELETE'' \<and> bw = blob_guarded bsdk rx bw0
               \<longrightarrow> fst (blobStorageApi cs bsdk rx bw0)
                     = Inr (if statusCode e = Some 404 then error_response 404 ''Blob not found''
                            else internal_server_error e)))
   \<and> (query_get tg ''userId'' = Some u \<and> u \<noteq> []
        \<and> fst (getEntity tsdk (str_or (query_get tg ''department'') ''default'') u (store tw))
            = Inl e
      \<longrightarrow> fst (table_handleGetRequest tg tsdk tw)
            = (if statusCode e = Some 404 then Inr (error_response 404 ''User not found'')
               else Inl e)
          \<and> (table_ready cs tsdk \<and> is_method tg ''GET'' \<and> tw = table_guarded tsdk tg tw0
               \<longrightarrow> fst (tableStorageApi cs tsdk tg tw0)
                     = Inr (if statusCode e = Some 404 then error_response 404 ''User not found''
                            else internal_server_error e)))
   \<and> (query_get tx ''userId'' = Some u \<and> u \<noteq> []
        \<and> fst (deleteEntity tsdk (str_or (query_get tx ''department'') ''default'') u (store tw))
            = Inl e
      \<longrightarrow> fst (table_handleDeleteRequest tx tsdk tw)
            = (if statusCode e = Some 404 then Inr (error_response 404 ''User not found'')
               else Inl e)
          \<and> (table_ready cs tsdk \<and> is_method tx ''DELETE'' \<and> tw = table_guarded tsdk tx tw0
               \<longrightarrow> fst (tableStorageApi cs tsdk tx tw0)
                     = Inr (if statusCode e = Some 404 then error_response 404 ''User not found''
                            else internal_server_error e)))
   \<and> status (error_response 404 t) = 404
   \<and> has_prop (JObj [(''error'', JStr t)]) ''error''
   \<and> body (error_response 404 t) = Json (JObj [(''error'', JStr t)])
   \<and> status (internal_server_error e) = 500"
proof (intro conjI)
  show "query_get rg ''blobName'' = Some b \<and> b \<noteq> [] \<and> fst (download bsdk b (store bw)) = Inl e
    \<longrightarrow> fst (blob_handleGetRequest rg bsdk bw)
          = (if statusCode e = Some 404 then Inr (error_response 404 ''Blob not found'')
             else Inl e)
        \<and> (blob_ready cs bsdk \<and> is_method rg ''GET'' \<and> bw = blob_guarded bsdk rg bw0
             \<longrightarrow> fst (blobStorageApi cs bsdk rg bw0)
                   = Inr (if statusCode e = Some 404 then error_response 404 ''Blob not found''
                          else internal_server_error e))"
    using blob_get_download_fails[of rg b bsdk bw e]
    by (auto simp add: blob_endpoint_get)
next
  show "query_get rx ''blobName'' = Some b \<and> b \<noteq> [] \<and> fst (deleteBlob bsdk b (store bw)) = Inl e
      \<longrightarrow> fst (blob_handleDeleteRequest rx bsdk bw)
            = (if statusCode e = Some 404 then Inr (error_response 404 ''Blob not found'')
               else Inl e)
          \<and> (blob_ready cs bsdk \<and> is_method rx ''DELETE'' \<and> bw = blob_guarded bsdk rx bw0
               \<longrightarrow> fst (blobStorageApi cs bsdk rx bw0)
                     = Inr (if statusCode e = Some 404 then error_response 404 ''Blob not found''
                            else internal_server_error e))"
    using blob_delete_fails[of rx b bsdk bw e]
    by (auto simp add: blob_endpoint_delete)
next
  show "query_get tg ''userId'' = Some u \<and> u \<noteq> []
        \<and> fst (getEntity tsdk (str_or (query_get tg ''department'') ''default'') u (store tw))
            = Inl e
      \<longrightarrow> fst (table_handleGetRequest tg tsdk tw)
            = (if statusCode e = Some 404 then Inr (error_response 404 ''User not found'')
               else Inl e)
          \<and> (table_ready cs tsdk \<and> is_method tg ''GET'' \<and> tw = table_guarded tsdk tg tw0
               \<longrightarrow> fst (tableStorageApi cs tsdk tg tw0)
                     = Inr (if statusCode e = Some 404 then error_response 404 ''User not found''
                            else internal_server_error e))"
    using table_get_fails[of tg u tsdk tw e]
    by (auto simp add: table_endpoint_get)
next
  show "query_get tx ''userId'' = Some u \<and> u \<noteq> []
        \<and> fst (deleteEntity tsdk (str_or (query_get tx ''department'') ''default'') u (store tw))
            = Inl e
      \<longrightarrow> fst (table_handleDeleteRequest tx tsdk tw)
            = (if statusCode e = Some 404 then Inr (error_response 404 ''User not found'')
               else Inl e)
          \<and> (table_ready cs tsdk \<and> is_method tx ''DELETE'' \<and> tw = table_guarded tsdk tx tw0
               \<longrightarrow> fst (tableStorageApi cs tsdk tx tw0)
                     = Inr (if statusCode e = Some 404 then error_response 404 ''User not found''
                            else internal_server_error e))"
    using table_delete_fails[of tx u tsdk tw e]
    by (auto simp add: table_endpoint_delete)
qed (simp_all add: error_response_def json_response_def internal_server_error_def has_prop_def)

text \<open>
  Claim C5. A table POST with its three required fields whose create call fails, as it does
  when the key (department, userId) exists, is not special-cased: the handler throws the error
  of the create call whatever its status code, and the endpoint answers with status 500 and
  the body \<^verbatim>\<open>{error: "Internal server error", details: message}\<close> that carries the message of
  that error.
\<close>

theorem create_failure_is_500:
  assumes "table_ready cs sdk" and "is_method request ''POST''"
    and "json request = Inr parsed"
    and "truthy (get_prop parsed ''userId'')" and "truthy (get_prop parsed ''name'')"
    and "truthy (get_prop parsed ''email'')"
    and "fst (createEntity sdk (make_userEntity parsed) (store (table_guarded sdk request w0)))
           = Inl e"
  shows "fst (table_handlePostRequest request sdk (table_guarded sdk request w0)) = Inl e
         \<and> fst (tableStorageApi cs sdk request w0) = Inr (internal_server_error e)
         \<and> status (internal_server_error e) = 500
         \<and> body (internal_server_error e)
             = Json (JObj [(''error'', JStr ''Internal server error''),
                           (''details'', JStr (message e))])"
proof -
  have d: "destructurable parsed"
    using assms(4) by (rule get_prop_truthy_obj)
  have "fst (table_handlePostRequest request sdk (table_guarded sdk request w0)) = Inl e"
    using assms d by (simp add: table_handlePostRequest_def Let_def call_eq)
  then show ?thesis
    using assms(1,2)
    by (simp add: table_endpoint_post internal_server_error_def json_response_def)
qed


subsection \<open>The three claims at concrete requests\<close>

text \<open>A container that holds \<^verbatim>\<open>a.txt\<close>, behind a client whose download has no stream.\<close>

theorem download_without_stream_is_404_witness:
  "query_get (sample_request ''GET'' [(''blobName'', ''a.txt'')] JNull) ''blobName'' = Some ''a.txt''
   \<and> map_of (objects (store one_blob_container)) ''a.txt''
       = Some \<lparr>content = [], content_type = ''text/plain''\<rparr>
   \<and> fst (download no_stream_sdk ''a.txt''
             (store (blob_guarded no_stream_sdk
                       (sample_request ''GET'' [(''blobName'', ''a.txt'')] JNull)
                       one_blob_container)))
       = Inr \<lparr>readableStreamBody = None\<rparr>
   \<and> blob_ready sample_credential no_stream_sdk
   \<and> is_method (sample_request ''GET'' [(''blobName'', ''a.txt'')] JNull) ''GET''
   \<and> fst (blobStorageApi sample_credential no_stream_sdk
             (sample_request ''GET'' [(''blobName'', ''a.txt'')] JNull) one_blob_container)
       = Inr (error_response 404 ''Blob not found or empty'')"
  using download_without_stream_is_404
    [where request = "sample_request ''GET'' [(''blobName'', ''a.txt'')] JNull"
       and b = "''a.txt''" and sdk = no_stream_sdk and cs = sample_credential
       and response = "\<lparr>readableStreamBody = None\<rparr>"
       and w = "blob_guarded no_stream_sdk
                  (sample_request ''GET'' [(''blobName'', ''a.txt'')] JNull) one_blob_container"
       and ?w0.0 = one_blob_container]
  by (simp add: value_defs blob_defs)

text \<open>
  Lookups and deletes in an empty container and an empty table, and a delete that fails with
  status 503.
\<close>

theorem not_found_translation_witness:
  "(fst (download ref_BlobSdk ''a.txt''
           (store (blob_guarded ref_BlobSdk
                     (sample_request ''GET'' [(''blobName'', ''a.txt'')] JNull) empty_container)))
      = Inl not_found_error
    \<and> fst (blobStorageApi sample_credential ref_BlobSdk
              (sample_request ''GET'' [(''blobName'', ''a.txt'')] JNull) empty_container)
        = Inr (error_response 404 ''Blob not found'')
    \<and> fst (blobStorageApi sample_credential ref_BlobSdk
              (sample_request ''DELETE'' [(''blobName'', ''a.txt'')] JNull) empty_container)
        = Inr (error_response 404 ''Blob not found'')
    \<and> fst (tableStorageApi sample_credential ref_TableSdk
              (sample_request ''GET'' [(''userId'', ''u1'')] JNull) empty_table)
        = Inr (error_response 404 ''User not found'')
    \<and> fst (tableStorageApi sample_credential ref_TableSdk
              (sample_request ''DELETE'' [(''userId'', ''u1'')] JNull) empty_table)
        = Inr (error_response 404 ''User not found''))
   \<and> (fst (deleteEntity unavailable_sdk ''default'' ''u1''
              (store (table_guarded unavailable_sdk
                        (sample_request ''DELETE'' [(''userId'', ''u1'')] JNull) one_user_table)))
        = Inl unavailable_error
      \<and> fst (table_handleDeleteRequest (sample_request ''DELETE'' [(''userId'', ''u1'')] JNull)
                unavailable_sdk
                (table_guarded unavailable_sdk
                   (sample_request ''DELETE'' [(''userId'', ''u1'')] JNull) one_user_table))
          = Inl unavailable_error
      \<and> fst (tableStorageApi sample_credential unavailable_sdk
                (sample_request ''DELETE'' [(''userId'', ''u1'')] JNull) one_user_table)
          = Inr (internal_server_error unavailable_error))"
  using not_found_translation
    [where rg = "sample_request ''GET'' [(''blobName'', ''a.txt'')] JNull"
       and rx = "sample_request ''DELETE'' [(''blobName'', ''a.txt'')] JNull"
       and tg = "sample_request ''GET'' [(''userId'', ''u1'')] JNull"
       and tx = "sample_request ''DELETE'' [(''userId'', ''u1'')] JNull"
       and b = "''a.txt''" and u = "''u1''" and e = not_found_error
       and bsdk = ref_BlobSdk and tsdk = ref_TableSdk and cs = sample_credential
       and bw = "blob_guarded ref_BlobSdk
                   (sample_request ''GET'' [(''blobName'', ''a.txt'')] JNull) empty_container"
       and ?bw0.0 = empty_container
       and tw = "table_guarded ref_TableSdk
                   (sample_request ''GET'' [(''userId'', ''u1'')] JNull) empty_table"
       and ?tw0.0 = empty_table]
    not_found_translation
    [where tx = "sample_request ''DELETE'' [(''userId'', ''u1'')] JNull"
       and u = "''u1''" and e = unavailable_error
       and tsdk = unavailable_sdk and cs = sample_credential
       and tw = "table_guarded unavailable_sdk
                   (sample_request ''DELETE'' [(''userId'', ''u1'')] JNull) one_user_table"
       and ?tw0.0 = one_user_table,
     THEN conjunct2, THEN conjunct2, THEN conjunct2, THEN conjunct1]
  by (simp add: value_defs blob_defs table_defs)

text \<open>A POST of the record the table of the reference service already holds.\<close>

theorem create_failure_is_500_witness:
  "table_ready sample_credential ref_TableSdk
   \<and> is_method (sample_request ''POST'' [] u1_body) ''POST''
   \<and> truthy (get_prop u1_body ''userId'') \<and> truthy (get_prop u1_body ''name'')
   \<and> truthy (get_prop u1_body ''email'')
   \<and> map_of (rows (store one_user_table)) (entity_key (make_userEntity u1_body)) = Some u1_record
   \<and> fst (createEntity ref_TableSdk (make_userEntity u1_body)
             (store (table_guarded ref_TableSdk (sample_request ''POST'' [] u1_body)
                       one_user_table)))
       = Inl (conflict_error ''The specified entity already exists.'')
   \<and> statusCode (conflict_error ''The specified entity already exists.'') = Some 409
   \<and> fst (tableStorageApi sample_credential ref_TableSdk (sample_request ''POST'' [] u1_body)
             one_user_table)
       = Inr \<lparr>status = 500, resp_headers = [],
              body = Json (JObj [(''error'', JStr ''Internal server error''),
                                 (''details'', JStr ''The specified entity already exists.'')])\<rparr>"
  using create_failure_is_500
    [where cs = sample_credential and sdk = ref_TableSdk
       and request = "sample_request ''POST'' [] u1_body" and parsed = u1_body
       and ?w0.0 = one_user_table
       and e = "conflict_error ''The specified entity already exists.''"]
  by (simp add: value_defs table_defs)

section \<open>The records the table handlers build\<close>

lemma table_post_valid:
  assumes "json request = Inr parsed"
    and "truthy (get_prop parsed ''userId'')" and "truthy (get_prop parsed ''name'')"
    and "truthy (get_prop parsed ''email'')"
  shows "table_handlePostRequest request sdk w =
           (case fst (createEntity sdk (make_userEntity parsed) (store w)) of
              Inl e \<Rightarrow> Inl e
            | Inr u \<Rightarrow>
                Inr (json_response 201
                       (JObj [(''message'', JStr ''User created successfully''),
                              (''user'', UserEntity_obj (make_userEntity parsed))])),
            w\<lparr>store := snd (createEntity sdk (make_userEntity parsed) (store w)),
              calls := calls w @ [CreateEntity (make_userEntity parsed)]\<rparr>)"
  using assms get_prop_truthy_obj[OF assms(2)]
  by (simp add: table_handlePostRequest_def Let_def call_eq split: sum.split)

lemma table_put_valid:
  assumes "json request = Inr parsed" and "truthy (get_prop parsed ''userId'')"
  shows "table_handlePutRequest request sdk w =
           (case fst (upsertEntity sdk (make_userEntity parsed) Replace (store w)) of
              Inl e \<Rightarrow> Inl e
            | Inr u \<Rightarrow>
                Inr (json_response 200
                       (JObj [(''message'', JStr ''User updated successfully''),
                              (''user'', UserEntity_obj (make_userEntity parsed))])),
            w\<lparr>store := snd (upsertEntity sdk (make_userEntity parsed) Replace (store w)),
              calls := calls w @ [UpsertEntity (make_userEntity parsed) Replace]\<rparr>)"
  using assms get_prop_truthy_obj[OF assms(2)]
  by (simp add: table_handlePutRequest_def Let_def call_eq split: sum.split)

lemma table_guarded_store: "store (table_guarded sdk request w0) = snd (createTable sdk (store w0))"
  by (simp add: table_guarded_def ensure_exists_store table_entered_def log_def)

lemma make_userEntity_u1:
  "make_userEntity u1_body =
     \<lparr>partitionKey = JStr ''default'', rowKey = JStr ''u1'', name = JStr ''A'',
      email = JStr ''a@x.com'', age = JNum 0\<rparr>"
  by (simp add: make_userEntity_def get_department_def u1_body_def js_or_def)

text \<open>
  Claim C3. The scenario of the specification: a table POST whose body is
  \<^verbatim>\<open>{userId: "u1", name: "A", email: "a@x.com"}\<close>, department and age omitted, on an endpoint that
  is ready and whose create call succeeds. The response has status 201; the record handed to
  \<^verbatim>\<open>createEntity\<close>, which is also the \<^verbatim>\<open>user\<close> of the response, is exactly
  \<^verbatim>\<open>{partitionKey: "default", rowKey: "u1", name: "A", email: "a@x.com", age: 0}\<close>. For any
  body, the department is \<^verbatim>\<open>"default"\<close> and the age is 0 when the body has no such property.
\<close>

theorem scenario_post_defaults:
  assumes "table_ready cs sdk" and "is_method request ''POST''"
    and "json request = Inr u1_body"
    and "fst (createEntity sdk (make_userEntity u1_body) (store (table_guarded sdk request w0)))
           = Inr ()"
  shows "fst (tableStorageApi cs sdk request w0)
           = Inr \<lparr>status = 201, resp_headers = [],
                  body = Json (JObj [(''message'', JStr ''User created successfully''),
                                     (''user'',
                                      JObj [(''partitionKey'', JStr ''default''),
                                            (''rowKey'', JStr ''u1''), (''name'', JStr ''A''),
                                            (''email'', JStr ''a@x.com''), (''age'', JNum 0)])])\<rparr>
         \<and> calls (snd (tableStorageApi cs sdk request w0))
             = calls w0 @ [CreateTable,
                           CreateEntity \<lparr>partitionKey = JStr ''default'', rowKey = JStr ''u1'',
                                         name = JStr ''A'', email = JStr ''a@x.com'',
                                         age = JNum 0\<rparr>]
         \<and> (get_prop parsed ''department'' = JUndefined
              \<longrightarrow> partitionKey (make_userEntity parsed) = JStr ''default'')
         \<and> (get_prop parsed ''age'' = JUndefined \<longrightarrow> age (make_userEntity parsed) = JNum 0)"
proof -
  have t: "truthy (get_prop u1_body ''userId'')" "truthy (get_prop u1_body ''name'')"
    "truthy (get_prop u1_body ''email'')"
    by (simp_all add: u1_body_def)
  have h: "table_handlePostRequest request sdk (table_guarded sdk request w0) =
             (Inr (json_response 201
                     (JObj [(''message'', JStr ''User created successfully''),
                            (''user'', UserEntity_obj (make_userEntity u1_body))])),
              (table_guarded sdk request w0)
                \<lparr>store := snd (createEntity sdk (make_userEntity u1_body)
                                 (store (table_guarded sdk request w0))),
                  calls := calls (table_guarded sdk request w0)
                             @ [CreateEntity (make_userEntity u1_body)]\<rparr>)"
    using table_post_valid[OF assms(3) t, of sdk "table_guarded sdk request w0"] assms(4)
    by simp
  have d: "tableStorageApi cs sdk request w0 =
             catch_all ''Error in table storage operation:''
               (table_handlePostRequest request sdk (table_guarded sdk request w0))"
    using assms(1,2) is_method_distinct(1)[of request] by (simp add: table_dispatch)
  have 1: "fst (tableStorageApi cs sdk request w0)
           = Inr (json_response 201
                    (JObj [(''message'', JStr ''User created successfully''),
                           (''user'', UserEntity_obj (make_userEntity u1_body))]))"
    by (simp add: d h catch_all_Inr)
  have 2: "calls (snd (tableStorageApi cs sdk request w0))
             = calls w0 @ [CreateTable, CreateEntity (make_userEntity u1_body)]"
    by (simp add: d h catch_all_Inr table_guarded_calls)
  have 3: "get_prop parsed ''department'' = JUndefined
              \<longrightarrow> partitionKey (make_userEntity parsed) = JStr ''default''"
    by (simp add: make_userEntity_def get_department_def)
  have 4: "get_prop parsed ''age'' = JUndefined \<longrightarrow> age (make_userEntity parsed) = JNum 0"
    by (simp add: make_userEntity_def js_or_def)
  from 1 2 3 4 show ?thesis
    by (simp add: make_userEntity_u1 json_response_def UserEntity_obj_def)
qed


text \<open>The scenario on the reference table service, starting from an empty table.\<close>

theorem scenario_post_defaults_witness:
  "table_ready sample_credential ref_TableSdk
   \<and> is_method (sample_request ''POST'' [] u1_body) ''POST''
   \<and> fst (createEntity ref_TableSdk (make_userEntity u1_body)
             (store (table_guarded ref_TableSdk (sample_request ''POST'' [] u1_body)
                       empty_table)))
       = Inr ()
   \<and> fst (tableStorageApi sample_credential ref_TableSdk (sample_request ''POST'' [] u1_body)
             empty_table)
       = Inr (json_response 201
                (JObj [(''message'', JStr ''User created successfully''), (''user'', u1_record)]))
   \<and> calls (snd (tableStorageApi sample_credential ref_TableSdk
                    (sample_request ''POST'' [] u1_body) empty_table))
       = [CreateTable,
          CreateEntity \<lparr>partitionKey = JStr ''default'', rowKey = JStr ''u1'',
                        name = JStr ''A'', email = JStr ''a@x.com'', age = JNum 0\<rparr>]
   \<and> rows (store (snd (tableStorageApi sample_credential ref_TableSdk
                          (sample_request ''POST'' [] u1_body) empty_table)))
       = [((JStr ''default'', JStr ''u1''), u1_record)]
   \<and> partitionKey (make_userEntity (JObj [(''userId'', JStr ''u2'')])) = JStr ''default''
   \<and> age (make_userEntity (JObj [(''userId'', JStr ''u2'')])) = JNum 0"
  using scenario_post_defaults
    [where cs = sample_credential and sdk = ref_TableSdk
       and request = "sample_request ''POST'' [] u1_body" and ?w0.0 = empty_table
       and parsed = "JObj [(''userId'', JStr ''u2'')]"]
  by (simp add: value_defs table_defs)

subsection \<open>Attributes that are undefined\<close>

lemma stringify_props_keys:
  "k \<in> fst ` set (stringify_props ps) \<longleftrightarrow> (\<exists>v. (k, v) \<in> set ps \<and> v \<noteq> JUndefined)"
proof (induction ps)
  case Nil
  then show ?case by simp
next
  case (Cons p ps)
  then show ?case by (cases p) auto
qed

lemma has_prop_stringify:
  "has_prop (JSON_stringify (JObj ps)) k \<longleftrightarrow> (\<exists>v. (k, v) \<in> set ps \<and> v \<noteq> JUndefined)"
  by (simp add: has_prop_def stringify_props_keys)

lemma ref_upsert_replace:
  "ref_upsertEntity e Replace s =
     (Inr (), s\<lparr>rows := (entity_key e, JSON_stringify (UserEntity_obj e))
                          # remove_row (entity_key e) (rows s)\<rparr>)"
  by (simp add: ref_upsertEntity_def Let_def)

text \<open>
  Claim C8. A table PUT whose body holds a \<^verbatim>\<open>userId\<close> that passes the presence check and
  omits \<^verbatim>\<open>name\<close> or \<^verbatim>\<open>email\<close> is not answered with 400: every response of the handler has
  status 200. The handler builds the record with the omitted attribute undefined and makes one
  storage call, \<^verbatim>\<open>upsertEntity\<close> of that record in mode \<^verbatim>\<open>"Replace"\<close>; when the call succeeds it
  returns 200 with that record, and when the call throws the endpoint answers 500. On the
  reference table service the upsert succeeds and leaves under the key exactly the document
  of the new record, which has no \<^verbatim>\<open>name\<close> (no \<^verbatim>\<open>email\<close>) when the body had none, whatever
  was stored before.
\<close>

theorem put_without_name_or_email:
  assumes "json request = Inr parsed" and "truthy (get_prop parsed ''userId'')"
    and "get_prop parsed ''name'' = JUndefined \<or> get_prop parsed ''email'' = JUndefined"
  shows "(\<forall>r. fst (table_handlePutRequest request sdk w) = Inr r \<longrightarrow> status r = 200)
         \<and> (name (make_userEntity parsed) = JUndefined \<or> email (make_userEntity parsed) = JUndefined)
         \<and> calls (snd (table_handlePutRequest request sdk w))
             = calls w @ [UpsertEntity (make_userEntity parsed) Replace]
         \<and> fst (table_handlePutRequest request sdk w)
             = (case fst (upsertEntity sdk (make_userEntity parsed) Replace (store w)) of
                  Inl e \<Rightarrow> Inl e
                | Inr u \<Rightarrow>
                    Inr (json_response 200
                           (JObj [(''message'', JStr ''User updated successfully''),
                                  (''user'', UserEntity_obj (make_userEntity parsed))])))
         \<and> (table_ready cs sdk \<and> is_method request ''PUT'' \<and> w = table_guarded sdk request w0
              \<longrightarrow> fst (tableStorageApi cs sdk request w0)
                    = Inr (case fst (upsertEntity sdk (make_userEntity parsed) Replace (store w)) of
                             Inl e \<Rightarrow> internal_server_error e
                           | Inr u \<Rightarrow>
                               json_response 200
                                 (JObj [(''message'', JStr ''User updated successfully''),
                                        (''user'', UserEntity_obj (make_userEntity parsed))])))
         \<and> fst (table_handlePutRequest request ref_TableSdk tw)
             = Inr (json_response 200
                      (JObj [(''message'', JStr ''User updated successfully''),
                             (''user'', UserEntity_obj (make_userEntity parsed))]))
         \<and> map_of (rows (store (snd (table_handlePutRequest request ref_TableSdk tw))))
               (entity_key (make_userEntity parsed))
             = Some (JSON_stringify (UserEntity_obj (make_userEntity parsed)))
         \<and> (get_prop parsed ''name'' = JUndefined
              \<longrightarrow> \<not> has_prop (JSON_stringify (UserEntity_obj (make_userEntity parsed))) ''name'')
         \<and> (get_prop parsed ''email'' = JUndefined
              \<longrightarrow> \<not> has_prop (JSON_stringify (UserEntity_obj (make_userEntity parsed))) ''email'')"
proof -
  note v = table_put_valid[OF assms(1,2)]
  have 1: "\<forall>r. fst (table_handlePutRequest request sdk w) = Inr r \<longrightarrow> status r = 200"
    by (auto simp add: v json_response_def split: sum.splits)
  have 2: "name (make_userEntity parsed) = JUndefined \<or> email (make_userEntity parsed) = JUndefined"
    using assms(3) by (simp add: make_userEntity_def)
  have 3: "calls (snd (table_handlePutRequest request sdk w))
             = calls w @ [UpsertEntity (make_userEntity parsed) Replace]"
    by (simp add: v)
  have 4: "fst (table_handlePutRequest request sdk w)
             = (case fst (upsertEntity sdk (make_userEntity parsed) Replace (store w)) of
                  Inl e \<Rightarrow> Inl e
                | Inr u \<Rightarrow>
                    Inr (json_response 200
                           (JObj [(''message'', JStr ''User updated successfully''),
                                  (''user'', UserEntity_obj (make_userEntity parsed))])))"
    by (simp add: v)
  have 5: "table_ready cs sdk \<and> is_method request ''PUT'' \<and> w = table_guarded sdk request w0
              \<longrightarrow> fst (tableStorageApi cs sdk request w0)
                    = Inr (case fst (upsertEntity sdk (make_userEntity parsed) Replace (store w)) of
                             Inl e \<Rightarrow> internal_server_error e
                           | Inr u \<Rightarrow>
                               json_response 200
                                 (JObj [(''message'', JStr ''User updated successfully''),
                                        (''user'', UserEntity_obj (make_userEntity parsed))]))"
    by (auto simp add: table_endpoint_put v split: sum.split)
  have 6: "fst (table_handlePutRequest request ref_TableSdk tw)
             = Inr (json_response 200
                      (JObj [(''message'', JStr ''User updated successfully''),
                             (''user'', UserEntity_obj (make_userEntity parsed))]))"
    by (simp add: v ref_TableSdk_def ref_upsert_replace)
  have 7: "map_of (rows (store (snd (table_handlePutRequest request ref_TableSdk tw))))
               (entity_key (make_userEntity parsed))
             = Some (JSON_stringify (UserEntity_obj (make_userEntity parsed)))"
    by (simp add: v ref_TableSdk_def ref_upsert_replace)
  have 8: "get_prop parsed ''name'' = JUndefined
              \<longrightarrow> \<not> has_prop (JSON_stringify (UserEntity_obj (make_userEntity parsed))) ''name''"
    unfolding UserEntity_obj_def has_prop_stringify by (simp add: make_userEntity_def)
  have 9: "get_prop parsed ''email'' = JUndefined
              \<longrightarrow> \<not> has_prop (JSON_stringify (UserEntity_obj (make_userEntity parsed))) ''email''"
    unfolding UserEntity_obj_def has_prop_stringify by (simp add: make_userEntity_def)
  from 1 2 3 4 5 6 7 8 9 show ?thesis
    by blast
qed


text \<open>A PUT without \<^verbatim>\<open>email\<close> over the stored record of \<^verbatim>\<open>u1\<close>: the stored email is gone.\<close>

theorem put_without_name_or_email_witness:
  "truthy (get_prop (JObj [(''userId'', JStr ''u1''), (''name'', JStr ''B'')]) ''userId'')
   \<and> get_prop (JObj [(''userId'', JStr ''u1''), (''name'', JStr ''B'')]) ''email'' = JUndefined
   \<and> table_ready sample_credential ref_TableSdk
   \<and> is_method (sample_request ''PUT'' [] (JObj [(''userId'', JStr ''u1''), (''name'', JStr ''B'')]))
         ''PUT''
   \<and> map_of (rows (store one_user_table)) (JStr ''default'', JStr ''u1'') = Some u1_record
   \<and> get_prop u1_record ''email'' = JStr ''a@x.com''
   \<and> fst (tableStorageApi sample_credential ref_TableSdk
             (sample_request ''PUT'' [] (JObj [(''userId'', JStr ''u1''), (''name'', JStr ''B'')]))
             one_user_table)
       = Inr \<lparr>status = 200, resp_headers = [],
              body = Json (JObj [(''message'', JStr ''User updated successfully''),
                                 (''user'',
                                  JObj [(''partitionKey'', JStr ''default''),
                                        (''rowKey'', JStr ''u1''), (''name'', JStr ''B''),
                                        (''age'', JNum 0)])])\<rparr>
   \<and> map_of (rows (store (snd (tableStorageApi sample_credential ref_TableSdk
                                  (sample_request ''PUT'' []
                                     (JObj [(''userId'', JStr ''u1''), (''name'', JStr ''B'')]))
                                  one_user_table))))
         (JStr ''default'', JStr ''u1'')
       = Some (JObj [(''partitionKey'', JStr ''default''), (''rowKey'', JStr ''u1''),
                     (''name'', JStr ''B''), (''age'', JNum 0)])"
  using put_without_name_or_email
    [where request = "sample_request ''PUT'' []
                        (JObj [(''userId'', JStr ''u1''), (''name'', JStr ''B'')])"
       and parsed = "JObj [(''userId'', JStr ''u1''), (''name'', JStr ''B'')]"
       and sdk = ref_TableSdk and cs = sample_credential and ?w0.0 = one_user_table
       and w = "table_guarded ref_TableSdk
                  (sample_request ''PUT'' []
                     (JObj [(''userId'', JStr ''u1''), (''name'', JStr ''B'')]))
                  one_user_table"
       and tw = "table_guarded ref_TableSdk
                   (sample_request ''PUT'' []
                      (JObj [(''userId'', JStr ''u1''), (''name'', JStr ''B'')]))
                   one_user_table"]
  by (simp add: value_defs table_defs)

section \<open>The outcome of the creation attempt\<close>

text \<open>
  What a handler returns depends on the world only through the state of the service and the
  clock, and never on the creation function of the client.
\<close>

lemma blob_guarded_store:
  "store (blob_guarded sdk request w0) = snd (createIfNotExists sdk (store w0))"
  by (simp add: blob_guarded_def ensure_exists_store blob_entered_def log_def)

lemma blob_guarded_clock: "clock (blob_guarded sdk request w0) = clock w0"
  by (simp add: blob_guarded_def ensure_exists_clock blob_entered_def log_def)

lemma table_guarded_clock: "clock (table_guarded sdk request w0) = clock w0"
  by (simp add: table_guarded_def ensure_exists_clock table_entered_def log_def)

lemma blob_get_confined:
  "store w' = store w \<Longrightarrow>
   fst (blob_handleGetRequest request (sdk\<lparr>createIfNotExists := f\<rparr>) w')
     = fst (blob_handleGetRequest request sdk w)"
  by (simp add: blob_handleGetRequest_def Let_def catch_not_found_fst blob_download_try_def call_eq
      split: sum.split option.split)

lemma blob_post_confined:
  "store w' = store w \<Longrightarrow> clock w' = clock w \<Longrightarrow>
   fst (blob_handlePostRequest request (sdk\<lparr>createIfNotExists := f\<rparr>) w')
     = fst (blob_handlePostRequest request sdk w)"
  by (simp add: blob_handlePostRequest_def Let_def call_eq split: sum.split)

lemma blob_delete_confined:
  "store w' = store w \<Longrightarrow>
   fst (blob_handleDeleteRequest request (sdk\<lparr>createIfNotExists := f\<rparr>) w')
     = fst (blob_handleDeleteRequest request sdk w)"
  by (simp add: blob_handleDeleteRequest_def Let_def catch_not_found_fst call_eq split: sum.split)

lemma table_get_confined:
  "store w' = store w \<Longrightarrow>
   fst (table_handleGetRequest request (sdk\<lparr>createTable := f\<rparr>) w')
     = fst (table_handleGetRequest request sdk w)"
  by (simp add: table_handleGetRequest_def Let_def catch_not_found_fst call_eq split: sum.split)

lemma table_post_confined:
  "store w' = store w \<Longrightarrow>
   fst (table_handlePostRequest request (sdk\<lparr>createTable := f\<rparr>) w')
     = fst (table_handlePostRequest request sdk w)"
  by (simp add: table_handlePostRequest_def Let_def call_eq split: sum.split)

lemma table_put_confined:
  "store w' = store w \<Longrightarrow>
   fst (table_handlePutRequest request (sdk\<lparr>createTable := f\<rparr>) w')
     = fst (table_handlePutRequest request sdk w)"
  by (simp add: table_handlePutRequest_def Let_def call_eq split: sum.split)

lemma table_delete_confined:
  "store w' = store w \<Longrightarrow>
   fst (table_handleDeleteRequest request (sdk\<lparr>createTable := f\<rparr>) w')
     = fst (table_handleDeleteRequest request sdk w)"
  by (simp add: table_handleDeleteRequest_def Let_def catch_not_found_fst call_eq split: sum.split)

lemma blob_noninterference:
  assumes "snd (f (store w')) = snd (createIfNotExists sdk (store w))" and "clock w' = clock w"
  shows "fst (blobStorageApi cs (sdk\<lparr>createIfNotExists := f\<rparr>) request w')
           = fst (blobStorageApi cs sdk request w)"
proof (cases "blob_ready cs sdk")
  case True
  then have r: "blob_ready cs (sdk\<lparr>createIfNotExists := f\<rparr>)"
    by (simp add: blob_ready_def)
  have s: "store (blob_guarded (sdk\<lparr>createIfNotExists := f\<rparr>) request w')
             = store (blob_guarded sdk request w)"
    using assms(1) by (simp add: blob_guarded_store)
  have c: "clock (blob_guarded (sdk\<lparr>createIfNotExists := f\<rparr>) request w')
             = clock (blob_guarded sdk request w)"
    using assms(2) by (simp add: blob_guarded_clock)
  show ?thesis
    by (simp add: blob_dispatch[OF True] blob_dispatch[OF r] catch_all_fst
        blob_get_confined[OF s] blob_post_confined[OF s c] blob_delete_confined[OF s])
next
  case False
  then show ?thesis
    by (auto simp add: blob_ready_def blobStorageApi_def split: option.split)
qed

lemma table_noninterference:
  assumes "snd (f (store w')) = snd (createTable sdk (store w))"
  shows "fst (tableStorageApi cs (sdk\<lparr>createTable := f\<rparr>) request w')
           = fst (tableStorageApi cs sdk request w)"
proof (cases "table_ready cs sdk")
  case True
  then have r: "table_ready cs (sdk\<lparr>createTable := f\<rparr>)"
    by (simp add: table_ready_def)
  have s: "store (table_guarded (sdk\<lparr>createTable := f\<rparr>) request w')
             = store (table_guarded sdk request w)"
    using assms(1) by (simp add: table_guarded_store)
  show ?thesis
    by (simp add: table_dispatch[OF True] table_dispatch[OF r] catch_all_fst
        table_get_confined[OF s] table_post_confined[OF s] table_put_confined[OF s]
        table_delete_confined[OF s])
next
  case False
  then show ?thesis
    by (auto simp add: table_ready_def tableStorageApi_def split: option.split)
qed

text \<open>
  Claim C7. Two invocations for the same request that differ in the creation attempt of the
  guard step, one on a client with creation function \<open>createIfNotExists\<close> (\<open>createTable\<close>),
  the other with any function \<open>f\<close> (\<open>g\<close>) in its place, whose outcome may be a success in one
  run and a thrown error in the other, and that agree on the state of the service after the
  attempt (and, for the blob endpoint, on the clock), return the same result: the outcome of
  the creation attempt has no influence on the response.
\<close>

theorem creation_outcome_noninterference:
  "(snd (f (store bw')) = snd (createIfNotExists bsdk (store bw)) \<and> clock bw' = clock bw
    \<longrightarrow> fst (blobStorageApi cs (bsdk\<lparr>createIfNotExists := f\<rparr>) request bw')
          = fst (blobStorageApi cs bsdk request bw))
   \<and> (snd (g (store tw')) = snd (createTable tsdk (store tw))
      \<longrightarrow> fst (tableStorageApi cs (tsdk\<lparr>createTable := g\<rparr>) request tw')
            = fst (tableStorageApi cs tsdk request tw))"
  by (simp add: blob_noninterference table_noninterference)


text \<open>
  A creation that succeeds beside one that throws: on a container that exists, and on a table
  that has not been created beside one that exists.
\<close>

theorem creation_outcome_noninterference_witness:
  "fst (createIfNotExists ref_BlobSdk (store one_blob_container)) = Inr ()
   \<and> fst (throwing_create (store one_blob_container))
       = Inl (conflict_error ''The specified container already exists.'')
   \<and> snd (throwing_create (store one_blob_container))
       = snd (createIfNotExists ref_BlobSdk (store one_blob_container))
   \<and> fst (blobStorageApi sample_credential (ref_BlobSdk\<lparr>createIfNotExists := throwing_create\<rparr>)
             (sample_request ''POST'' [(''blobName'', ''b.txt'')] JNull) one_blob_container)
       = fst (blobStorageApi sample_credential ref_BlobSdk
                (sample_request ''POST'' [(''blobName'', ''b.txt'')] JNull) one_blob_container)
   \<and> fst (createTable ref_TableSdk (store new_account)) = Inr ()
   \<and> fst (ref_createTable (store empty_table))
       = Inl (conflict_error ''The table specified already exists.'')
   \<and> snd (ref_createTable (store empty_table)) = snd (createTable ref_TableSdk (store new_account))
   \<and> fst (tableStorageApi sample_credential (ref_TableSdk\<lparr>createTable := ref_createTable\<rparr>)
             (sample_request ''POST'' [] u1_body) empty_table)
       = fst (tableStorageApi sample_credential ref_TableSdk (sample_request ''POST'' [] u1_body)
                new_account)
   \<and> fst (tableStorageApi sample_credential ref_TableSdk (sample_request ''POST'' [] u1_body)
             new_account)
       = Inr (json_response 201
                (JObj [(''message'', JStr ''User created successfully''), (''user'', u1_record)]))"
  using creation_outcome_noninterference
    [where f = throwing_create and bsdk = ref_BlobSdk and bw = one_blob_container
       and bw' = one_blob_container and cs = sample_credential
       and request = "sample_request ''POST'' [(''blobName'', ''b.txt'')] JNull",
     THEN conjunct1]
    creation_outcome_noninterference
    [where g = ref_createTable and tsdk = ref_TableSdk and tw = new_account
       and tw' = empty_table and cs = sample_credential
       and request = "sample_request ''POST'' [] u1_body",
     THEN conjunct2]
  by (simp add: value_defs table_defs blob_defs)

section \<open>The fields of the response bodies\<close>

lemma error_or_message_json:
  "error_or_message (json_response st (JObj ps)) \<longleftrightarrow>
     (\<exists>v. ((''error'', v) \<in> set ps \<or> (''message'', v) \<in> set ps) \<and> v \<noteq> JUndefined)"
  unfolding error_or_message_def json_response_def
  by (auto simp add: has_prop_def stringify_props_keys)

lemma error_or_message_error [simp]: "error_or_message (error_response st t)"
  by (simp add: error_response_def error_or_message_json)

lemma error_or_message_internal [simp]: "error_or_message (internal_server_error e)"
  by (simp add: internal_server_error_def error_or_message_json)

lemma error_or_message_not_configured [simp]: "error_or_message not_configured"
  by (simp add: not_configured_def)

lemma blob_post_body:
  "fst (blob_handlePostRequest request sdk w) = Inr r \<Longrightarrow> error_or_message r"
  by (auto simp add: blob_handlePostRequest_def Let_def call_eq error_or_message_json
      split: sum.splits if_splits)

lemma blob_delete_body:
  "fst (blob_handleDeleteRequest request sdk w) = Inr r \<Longrightarrow> error_or_message r"
  by (auto simp add: blob_handleDeleteRequest_def Let_def call_eq catch_not_found_fst
      error_or_message_json split: sum.splits if_splits)

lemma blob_get_body:
  "fst (blob_handleGetRequest request sdk w) = Inr r \<Longrightarrow> status r = 200 \<or> error_or_message r"
  by (auto simp add: blob_handleGetRequest_def Let_def call_eq catch_not_found_fst
      blob_download_try_def json_response_def split: sum.splits if_splits option.splits)

lemma table_get_body:
  "fst (table_handleGetRequest request sdk w) = Inr r \<Longrightarrow> status r = 200 \<or> error_or_message r"
  by (auto simp add: table_handleGetRequest_def Let_def call_eq catch_not_found_fst
      json_response_def split: sum.splits if_splits)

lemma table_post_body:
  "fst (table_handlePostRequest request sdk w) = Inr r \<Longrightarrow> error_or_message r"
  by (auto simp add: table_handlePostRequest_def Let_def call_eq error_or_message_json
      split: sum.splits if_splits)

lemma table_put_body:
  "fst (table_handlePutRequest request sdk w) = Inr r \<Longrightarrow> error_or_message r"
  by (auto simp add: table_handlePutRequest_def Let_def call_eq error_or_message_json
      split: sum.splits if_splits)

lemma table_delete_body:
  "fst (table_handleDeleteRequest request sdk w) = Inr r \<Longrightarrow> error_or_message r"
  by (auto simp add: table_handleDeleteRequest_def Let_def call_eq catch_not_found_fst
      error_or_message_json split: sum.splits if_splits)


lemma blob_bodies:
  assumes "fst (blobStorageApi cs sdk request w) = Inr r"
  shows "(is_method request ''GET'' \<and> status r = 200) \<or> error_or_message r"
proof (cases "blob_ready cs sdk")
  case True
  consider (get) "is_method request ''GET''"
    | (post) "\<not> is_method request ''GET''" "is_method request ''POST''"
    | (delete) "\<not> is_method request ''GET''" "\<not> is_method request ''POST''"
        "is_method request ''DELETE''"
    | (other) "\<not> is_method request ''GET''" "\<not> is_method request ''POST''"
        "\<not> is_method request ''DELETE''"
    by blast
  then show ?thesis
  proof cases
    case get
    then show ?thesis
      using assms blob_get_body[of request sdk "blob_guarded sdk request w"]
      by (auto simp add: blob_dispatch[OF True] catch_all_fst split: sum.splits)
  next
    case post
    then show ?thesis
      using assms blob_post_body[of request sdk "blob_guarded sdk request w"]
      by (auto simp add: blob_dispatch[OF True] catch_all_fst split: sum.splits)
  next
    case delete
    then show ?thesis
      using assms blob_delete_body[of request sdk "blob_guarded sdk request w"]
      by (auto simp add: blob_dispatch[OF True] catch_all_fst split: sum.splits)
  next
    case other
    then show ?thesis
      using assms by (auto simp add: blob_dispatch[OF True] catch_all_fst)
  qed
next
  case False
  then show ?thesis
    using assms
    by (auto simp add: blob_ready_def blobStorageApi_def split: option.splits if_splits)
qed

lemma table_bodies:
  assumes "fst (tableStorageApi cs sdk request w) = Inr r"
  shows "(is_method request ''GET'' \<and> status r = 200) \<or> error_or_message r"
proof (cases "table_ready cs sdk")
  case True
  consider (get) "is_method request ''GET''"
    | (post) "\<not> is_method request ''GET''" "is_method request ''POST''"
    | (put) "\<not> is_method request ''GET''" "\<not> is_method request ''POST''"
        "is_method request ''PUT''"
    | (delete) "\<not> is_method request ''GET''" "\<not> is_method request ''POST''"
        "\<not> is_method request ''PUT''" "is_method request ''DELETE''"
    | (other) "\<not> is_method request ''GET''" "\<not> is_method request ''POST''"
        "\<not> is_method request ''PUT''" "\<not> is_method request ''DELETE''"
    by blast
  then show ?thesis
  proof cases
    case get
    then show ?thesis
      using assms table_get_body[of request sdk "table_guarded sdk request w"]
      by (auto simp add: table_dispatch[OF True] catch_all_fst split: sum.splits)
  next
    case post
    then show ?thesis
      using assms table_post_body[of request sdk "table_guarded sdk request w"]
      by (auto simp add: table_dispatch[OF True] catch_all_fst split: sum.splits)
  next
    case put
    then show ?thesis
      using assms table_put_body[of request sdk "table_guarded sdk request w"]
      by (auto simp add: table_dispatch[OF True] catch_all_fst split: sum.splits)
  next
    case delete
    then show ?thesis
      using assms table_delete_body[of request sdk "table_guarded sdk request w"]
      by (auto simp add: table_dispatch[OF True] catch_all_fst split: sum.splits)
  next
    case other
    then show ?thesis
      using assms by (auto simp add: table_dispatch[OF True] catch_all_fst)
  qed
next
  case False
  then show ?thesis
    using assms
    by (auto simp add: table_ready_def tableStorageApi_def split: option.splits if_splits)
qed

text \<open>
  Claim C2, as amended. Every response of either endpoint other than a response to a GET with
  status 200 has a body that is a JSON object with an \<^verbatim>\<open>error\<close> or a \<^verbatim>\<open>message\<close> field. The
  responses to a GET with status 200 are the downloaded bytes, the blob listing
  \<^verbatim>\<open>{blobs, count}\<close>, the user record as stored and the user listing \<^verbatim>\<open>{users, count}\<close>.
\<close>

theorem bodies_carry_error_or_message:
  "(fst (blobStorageApi cs bsdk rb bw) = Inr r
    \<longrightarrow> (is_method rb ''GET'' \<and> status r = 200) \<or> error_or_message r)
   \<and> (fst (tableStorageApi cs tsdk rt tw) = Inr r'
      \<longrightarrow> (is_method rt ''GET'' \<and> status r' = 200) \<or> error_or_message r')"
  using blob_bodies[of cs bsdk rb bw r] table_bodies[of cs tsdk rt tw r'] by blast

text \<open>
  Claim C2 as stated, that every body but the downloaded bytes has an \<^verbatim>\<open>error\<close> or a
  \<^verbatim>\<open>message\<close> field, fails: the listing of an empty container is \<^verbatim>\<open>{blobs: [], count: 0}\<close>, and
  the GET of a stored user returns the record itself.
\<close>

theorem listing_without_error_or_message:
  "fst (blobStorageApi sample_credential ref_BlobSdk (sample_request ''GET'' [] JNull)
          empty_container)
     = Inr \<lparr>status = 200, resp_headers = [],
            body = Json (JObj [(''blobs'', JArr []), (''count'', JNum 0)])\<rparr>
   \<and> \<not> error_or_message
         \<lparr>status = 200, resp_headers = [],
          body = Json (JObj [(''blobs'', JArr []), (''count'', JNum 0)])\<rparr>
   \<and> fst (tableStorageApi sample_credential ref_TableSdk
             (sample_request ''GET'' [(''userId'', ''u1'')] JNull) one_user_table)
       = Inr \<lparr>status = 200, resp_headers = [], body = Json u1_record\<rparr>
   \<and> \<not> error_or_message \<lparr>status = 200, resp_headers = [], body = Json u1_record\<rparr>"
  by (simp add: value_defs blob_defs table_defs)

text \<open>The amended claim at an upload and at the lookup of a user that is not stored.\<close>

theorem bodies_carry_error_or_message_witness:
  "fst (blobStorageApi sample_credential ref_BlobSdk
          (sample_request ''POST'' [(''blobName'', ''b.txt'')] JNull) empty_container)
     = Inr \<lparr>status = 201, resp_headers = [],
            body = Json (JObj [(''message'', JStr ''Blob uploaded successfully''),
                               (''blobName'', JStr ''b.txt''),
                               (''url'',
                                JStr ''https://account.blob.core.windows.net/documents/b.txt'')])\<rparr>
   \<and> \<not> is_method (sample_request ''POST'' [(''blobName'', ''b.txt'')] JNull) ''GET''
   \<and> error_or_message
         \<lparr>status = 201, resp_headers = [],
          body = Json (JObj [(''message'', JStr ''Blob uploaded successfully''),
                             (''blobName'', JStr ''b.txt''),
                             (''url'',
                              JStr ''https://account.blob.core.windows.net/documents/b.txt'')])\<rparr>
   \<and> fst (tableStorageApi sample_credential ref_TableSdk
             (sample_request ''GET'' [(''userId'', ''u9'')] JNull) one_user_table)
       = Inr (error_response 404 ''User not found'')
   \<and> status (error_response 404 ''User not found'') \<noteq> 200
   \<and> error_or_message (error_response 404 ''User not found'')"
  using bodies_carry_error_or_message
    [where cs = sample_credential and bsdk = ref_BlobSdk and bw = empty_container
       and rb = "sample_request ''POST'' [(''blobName'', ''b.txt'')] JNull"
       and r = "\<lparr>status = 201, resp_headers = [],
                 body = Json (JObj [(''message'', JStr ''Blob uploaded successfully''),
                                    (''blobName'', JStr ''b.txt''),
                                    (''url'',
                                     JStr ''https://account.blob.core.windows.net/documents/b.txt'')])\<rparr>"
       and tsdk = ref_TableSdk and tw = one_user_table
       and rt = "sample_request ''GET'' [(''userId'', ''u9'')] JNull"
       and r' = "error_response 404 ''User not found''"]
  by (simp add: value_defs blob_defs table_defs)

end
